theory Spec2Isabelle
  imports Complex_Main "HOL-Library.Monad_Syntax"
begin

section \<open>ECMAScript time values and the date-time interchange format\<close>

text \<open>
  Time values count milliseconds since the epoch, on the proleptic Gregorian calendar in
  UTC. The day, year, month and date functions are those of ECMA-262 (section "Time
  Values and Time Range"). \<open>YearFromDay\<close> picks the year from an estimate and its two
  neighbours; \<open>YearFromDay_spec\<close> below shows it is the year the standard defines, the
  one whose first day is the last not after the given day.
\<close>

definition DayFromYear :: "int \<Rightarrow> int" where
  "DayFromYear y = 365 * (y - 1970) + (y - 1969) div 4 - (y - 1901) div 100 + (y - 1601) div 400"

definition DaysInYear :: "int \<Rightarrow> int" where
  "DaysInYear y = (if y mod 400 = 0 then 366 else if y mod 100 = 0 then 365
                   else if y mod 4 = 0 then 366 else 365)"

definition YearFromDay :: "int \<Rightarrow> int" where
  "YearFromDay d =
     (let e = 1970 + (400 * d) div 146097 in
      if DayFromYear (e + 1) \<le> d then e + 1
      else if DayFromYear e \<le> d then e
      else e - 1)"


definition msPerDay :: int where "msPerDay = 86400000"

definition maxTime :: int where "maxTime = 8640000000000000"

definition Day :: "int \<Rightarrow> int" where "Day t = t div msPerDay"

definition TimeWithinDay :: "int \<Rightarrow> int" where "TimeWithinDay t = t mod msPerDay"

definition InLeapYear :: "int \<Rightarrow> bool" where "InLeapYear y = (DaysInYear y = 366)"

text \<open>
  Months count from 0. \<open>monthStart leap m\<close> is the day within the year on which month
  \<open>m\<close> starts (\<open>m = 12\<close>: the length of the year); the standard's tables for
  \<^verbatim>\<open>MonthFromTime\<close> and \<^verbatim>\<open>DateFromTime\<close> are these numbers.
\<close>

definition monthStart :: "bool \<Rightarrow> int \<Rightarrow> int" where
  "monthStart leap m =
     (let L = (if leap then 1 else 0) in
      if m = 0 then 0 else if m = 1 then 31 else if m = 2 then 59 + L
      else if m = 3 then 90 + L else if m = 4 then 120 + L else if m = 5 then 151 + L
      else if m = 6 then 181 + L else if m = 7 then 212 + L else if m = 8 then 243 + L
      else if m = 9 then 273 + L else if m = 10 then 304 + L else if m = 11 then 334 + L
      else 365 + L)"

definition MonthInYear :: "bool \<Rightarrow> int \<Rightarrow> int" where
  "MonthInYear leap n =
     (if n < monthStart leap 1 then 0 else if n < monthStart leap 2 then 1
      else if n < monthStart leap 3 then 2 else if n < monthStart leap 4 then 3
      else if n < monthStart leap 5 then 4 else if n < monthStart leap 6 then 5
      else if n < monthStart leap 7 then 6 else if n < monthStart leap 8 then 7
      else if n < monthStart leap 9 then 8 else if n < monthStart leap 10 then 9
      else if n < monthStart leap 11 then 10 else 11)"

definition MonthFromDay :: "int \<Rightarrow> int" where
  "MonthFromDay d = (let y = YearFromDay d in MonthInYear (InLeapYear y) (d - DayFromYear y))"

definition DateFromDay :: "int \<Rightarrow> int" where
  "DateFromDay d =
     (let y = YearFromDay d in
      d - DayFromYear y - monthStart (InLeapYear y) (MonthFromDay d) + 1)"

text \<open>
  \<^verbatim>\<open>MakeDay\<close>, \<^verbatim>\<open>MakeTime\<close> and \<^verbatim>\<open>MakeDate\<close> for a month between 0 and 11 and
  whole arguments.
\<close>

definition DaysInMonth :: "int \<Rightarrow> int \<Rightarrow> int" where
  "DaysInMonth y m = monthStart (InLeapYear y) (m + 1) - monthStart (InLeapYear y) m"

definition MakeDay :: "int \<Rightarrow> int \<Rightarrow> int \<Rightarrow> int" where
  "MakeDay y m dt = DayFromYear y + monthStart (InLeapYear y) m + dt - 1"

definition MakeTime :: "int \<Rightarrow> int \<Rightarrow> int \<Rightarrow> int \<Rightarrow> int" where
  "MakeTime h mi s ms = h * 3600000 + mi * 60000 + s * 1000 + ms"

definition MakeDate :: "int \<Rightarrow> int \<Rightarrow> int" where
  "MakeDate day tm = day * msPerDay + tm"

text \<open>A decimal digit and its character (the digits are the code units 48 to 57).\<close>

definition digit_char :: "int \<Rightarrow> char" where
  "digit_char n = char_of (48 + n)"

definition digit_val :: "char \<Rightarrow> int option" where
  "digit_val c = (let n = of_char c in if 48 \<le> n \<and> n \<le> 57 then Some (n - 48) else None)"

text \<open>
  \<^verbatim>\<open>toISOString\<close> of a time value: \<^verbatim>\<open>YYYY-MM-DDTHH:mm:ss.sssZ\<close>, every field padded
  with zeros, and the year as a sign and six digits when it does not lie between 0 and 9999.
\<close>

fun pad :: "nat \<Rightarrow> int \<Rightarrow> string" where
  "pad 0 k = []"
| "pad (Suc w) k = pad w (k div 10) @ [digit_char (k mod 10)]"

definition isoYear :: "int \<Rightarrow> string" where
  "isoYear y =
     (if 0 \<le> y \<and> y \<le> 9999 then pad 4 y
      else (if y < 0 then ''-'' else ''+'') @ pad 6 \<bar>y\<bar>)"

definition isoString :: "int \<Rightarrow> string" where
  "isoString t =
     (let d = Day t; tw = TimeWithinDay t in
      isoYear (YearFromDay d) @ ''-'' @ pad 2 (MonthFromDay d + 1) @ ''-'' @
      pad 2 (DateFromDay d) @ ''T'' @ pad 2 (tw div 3600000 mod 24) @ '':'' @
      pad 2 (tw div 60000 mod 60) @ '':'' @ pad 2 (tw div 1000 mod 60) @ ''.'' @
      pad 3 (tw mod 1000) @ ''Z'')"

text \<open>
  Reading the full form of the interchange format: the year (four digits, or a sign and
  six digits, not \<^verbatim>\<open>-000000\<close>), month, day, hour, minute, second and milliseconds, each
  with its separator, then \<^verbatim>\<open>Z\<close> and the end of the string. The fields must be in
  range (the day within the month of that year, the hour at most 23).
\<close>

fun digits_acc :: "int \<Rightarrow> string \<Rightarrow> int option" where
  "digits_acc a [] = Some a"
| "digits_acc a (c # cs) =
     (case digit_val c of None \<Rightarrow> None | Some v \<Rightarrow> digits_acc (10 * a + v) cs)"

definition take_digits :: "nat \<Rightarrow> string \<Rightarrow> (int \<times> string) option" where
  "take_digits n s =
     (if length s < n then None
      else case digits_acc 0 (take n s) of None \<Rightarrow> None | Some k \<Rightarrow> Some (k, drop n s))"

fun expect :: "char \<Rightarrow> string \<Rightarrow> string option" where
  "expect c [] = None"
| "expect c (x # xs) = (if x = c then Some xs else None)"

definition year_prefix :: "string \<Rightarrow> (int \<times> nat \<times> string) option" where
  "year_prefix s =
     (case s of [] \<Rightarrow> None
      | c # r \<Rightarrow> if c = CHR ''+'' then Some (1, 6, r)
                else if c = CHR ''-'' then Some (- 1, 6, r)
                else Some (1, 4, s))"

definition parseAfterYear :: "int \<Rightarrow> int \<Rightarrow> string \<Rightarrow> int option" where
  "parseAfterYear sg y s1 = do {
     s2 \<leftarrow> expect CHR ''-'' s1;
     (mo, s3) \<leftarrow> take_digits 2 s2;
     s4 \<leftarrow> expect CHR ''-'' s3;
     (dt, s5) \<leftarrow> take_digits 2 s4;
     s6 \<leftarrow> expect CHR ''T'' s5;
     (h, s7) \<leftarrow> take_digits 2 s6;
     s8 \<leftarrow> expect CHR '':'' s7;
     (mi, s9) \<leftarrow> take_digits 2 s8;
     s10 \<leftarrow> expect CHR '':'' s9;
     (sc, s11) \<leftarrow> take_digits 2 s10;
     s12 \<leftarrow> expect CHR ''.'' s11;
     (ms, s13) \<leftarrow> take_digits 3 s12;
     s14 \<leftarrow> expect CHR ''Z'' s13;
     if s14 = [] \<and> (sg = 1 \<or> 0 < y) \<and> 1 \<le> mo \<and> mo \<le> 12 \<and> 1 \<le> dt \<and>
        dt \<le> DaysInMonth (sg * y) (mo - 1) \<and> h \<le> 23 \<and> mi \<le> 59 \<and> sc \<le> 59
     then Some (MakeDate (MakeDay (sg * y) (mo - 1) dt) (MakeTime h mi sc ms))
     else None }"

definition parseIsoFull :: "string \<Rightarrow> int option" where
  "parseIsoFull s = do {
     (sg, w, s0) \<leftarrow> year_prefix s;
     (y, s1) \<leftarrow> take_digits w s0;
     parseAfterYear sg y s1 }"

section \<open>JavaScript values\<close>

text \<open>
  The validator receives its event as \<^verbatim>\<open>any\<close>: every field may hold any JavaScript
  value. A property that is absent reads as \<open>JUndefined\<close>. Numbers are IEEE doubles; a
  finite double is a rational, and the two zeros are both \<open>Finite 0\<close> (nothing below
  tells them apart). Strings are lists of \<^typ>\<open>char\<close>; code units above 255 are not
  represented (the identifier pattern and the date format reject them anyway).
\<close>

datatype jsnum = NaN | PosInf | NegInf | Finite rat

datatype jsval =
    JUndefined
  | JNull
  | JBool bool
  | JNum jsnum
  | JStr string
  | JArr "jsval list"
  | JObj "(string \<times> jsval) list"

text \<open>ToBoolean: the falsy values are undefined, null, false, 0, NaN and the empty string.\<close>

fun truthy :: "jsval \<Rightarrow> bool" where
  "truthy JUndefined = False"
| "truthy JNull = False"
| "truthy (JBool b) = b"
| "truthy (JNum n) = (case n of NaN \<Rightarrow> False | Finite q \<Rightarrow> q \<noteq> 0 | _ \<Rightarrow> True)"
| "truthy (JStr s) = (s \<noteq> [])"
| "truthy (JArr xs) = True"
| "truthy (JObj kvs) = True"

fun typeof :: "jsval \<Rightarrow> string" where
  "typeof JUndefined = ''undefined''"
| "typeof JNull = ''object''"
| "typeof (JBool b) = ''boolean''"
| "typeof (JNum n) = ''number''"
| "typeof (JStr s) = ''string''"
| "typeof (JArr xs) = ''object''"
| "typeof (JObj kvs) = ''object''"

datatype error = RangeError | TypeError | ServiceError string

text \<open>
  Whether converting a value to a string (as a template literal does) throws a TypeError.
  A primitive never throws. An object parsed from JSON inherits \<^verbatim>\<open>toString\<close> unless it
  has a key of that name; the value under such a key is never callable, the inherited
  \<^verbatim>\<open>valueOf\<close> returns the object itself, and the conversion throws. An array is joined:
  each element other than undefined and null is converted in turn.
\<close>

fun ToString_throws :: "jsval \<Rightarrow> bool" where
  "ToString_throws (JArr xs) = list_ex ToString_throws xs"
| "ToString_throws (JObj kvs) = (''toString'' \<in> set (map fst kvs))"
| "ToString_throws v = False"

text \<open>
  A \<^verbatim>\<open>Date\<close> holds a time value: an integral number of milliseconds since the epoch with
  \<open>\<bar>t\<bar> \<le> maxTime\<close>, or NaN (\<open>InvalidDate\<close>).
\<close>

datatype jsdate = ValidDate int | InvalidDate

definition TimeClip :: "int \<Rightarrow> jsdate" where
  "TimeClip t = (if \<bar>t\<bar> \<le> maxTime then ValidDate t else InvalidDate)"

text \<open>
  \<^verbatim>\<open>Date.parse\<close>: a string in the full interchange format is parsed as ECMA-262 lays
  down (\<open>parseIsoFull\<close>). For every other string (the shorter forms of the format, offsets
  other than \<^verbatim>\<open>Z\<close>, the hour 24 of midnight, element values out of range, and whatever
  else an engine accepts) the result is the engine's, taken here as the parameter
  \<open>impl\<close>; \<open>None\<close> is NaN.
\<close>

definition Date_parse :: "(string \<Rightarrow> int option) \<Rightarrow> string \<Rightarrow> int option" where
  "Date_parse impl s = (case parseIsoFull s of Some t \<Rightarrow> Some t | None \<Rightarrow> impl s)"

text \<open>\<^verbatim>\<open>new Date(s)\<close> for a string \<open>s\<close>.\<close>

definition newDate :: "(string \<Rightarrow> int option) \<Rightarrow> string \<Rightarrow> jsdate" where
  "newDate impl s = (case Date_parse impl s of None \<Rightarrow> InvalidDate | Some t \<Rightarrow> TimeClip t)"

text \<open>\<^verbatim>\<open>Date.prototype.toISOString\<close> throws a RangeError on an invalid date.\<close>

definition toISOString :: "jsdate \<Rightarrow> error + string" where
  "toISOString d = (case d of InvalidDate \<Rightarrow> Inl RangeError | ValidDate t \<Rightarrow> Inr (isoString t))"

text \<open>An engine that accepts nothing beyond the full interchange format.\<close>

definition strict_engine :: "string \<Rightarrow> int option" where
  "strict_engine s = None"

text \<open>
  An engine that also reads the form without milliseconds and the form with a numeric
  offset, as every real engine does (here only for the two strings of the examples below).
\<close>

definition lenient_engine :: "string \<Rightarrow> int option" where
  "lenient_engine s =
     (if s = ''2024-01-15T10:30:00Z'' then Some 1705314600000
      else if s = ''2024-01-15T11:30:00.000+01:00'' then Some 1705314600000
      else None)"

section \<open>Validation utilities\<close>

text \<open>The character class of the pattern \<^verbatim>\<open>/^[A-Za-z0-9_-]+$/\<close>.\<close>

definition idChar :: "char \<Rightarrow> bool" where
  "idChar c = (c \<in> set (''ABCDEFGHIJKLMNOPQRSTUVWXYZ'' @ ''abcdefghijklmnopqrstuvwxyz'' @
                         ''0123456789'' @ ''_-''))"

definition chargerIdPattern :: "string \<Rightarrow> bool" where
  "chargerIdPattern s = (s \<noteq> [] \<and> list_all idChar s)"

definition isValidChargerId :: "jsval \<Rightarrow> bool" where
  "isValidChargerId chargerId =
     (if \<not> truthy chargerId \<or> typeof chargerId \<noteq> ''string'' then False
      else case chargerId of JStr s \<Rightarrow> chargerIdPattern s | _ \<Rightarrow> False)"

text \<open>
  The \<^verbatim>\<open>try\<close> around the body turns a throw of \<^verbatim>\<open>toISOString\<close> into \<open>False\<close>.
\<close>

definition isValidTimestamp :: "(string \<Rightarrow> int option) \<Rightarrow> jsval \<Rightarrow> bool" where
  "isValidTimestamp impl timestamp =
     (if \<not> truthy timestamp \<or> typeof timestamp \<noteq> ''string'' then False
      else case timestamp of
             JStr s \<Rightarrow>
               (let date = newDate impl s in
                date \<noteq> InvalidDate \<and>
                (case toISOString date of Inl e \<Rightarrow> False | Inr str \<Rightarrow> str = s))
           | _ \<Rightarrow> False)"

definition clockSkewMs :: int where
  "clockSkewMs = 5 * 60 * 1000"

text \<open>
  \<open>now\<close> is the time value read by \<^verbatim>\<open>new Date()\<close> inside the function. A comparison
  with NaN is false.
\<close>

definition isFutureTimestamp :: "int \<Rightarrow> jsdate \<Rightarrow> bool" where
  "isFutureTimestamp now timestamp =
     (case timestamp of ValidDate t \<Rightarrow> t > now + clockSkewMs | InvalidDate \<Rightarrow> False)"

section \<open>Event validator\<close>

record TelemetryEvent =
  ev_chargerId :: jsval
  ev_timestamp :: jsval
  ev_data :: jsval

record ValidatedEvent =
  ve_chargerId :: string
  ve_timestamp :: jsdate
  ve_data :: jsval

datatype rejectionReason =
    MissingChargerId
  | MissingTimestamp
  | InvalidChargerIdFormat
  | InvalidTimestampFormat
  | FutureTimestamp

text \<open>
  The result carries the rejection reason or the validated event. The text of the source's
  \<^verbatim>\<open>error\<close> field is left out, but not its evaluation: the messages of the two format
  rejections are template literals that convert the offending value to a string, and that
  conversion can throw; the function then throws instead of returning. (The message of the
  future check converts a timestamp that is a string by then.) The last branch of the
  \<open>case\<close> is never reached: both format checks have accepted only strings by then.
\<close>

datatype ValidationResult = Invalid rejectionReason | IsValid ValidatedEvent

definition validateEvent ::
    "(string \<Rightarrow> int option) \<Rightarrow> int \<Rightarrow> TelemetryEvent \<Rightarrow> error + ValidationResult" where
  "validateEvent impl now event =
     (if \<not> truthy (ev_chargerId event) then Inr (Invalid MissingChargerId)
      else if \<not> truthy (ev_timestamp event) then Inr (Invalid MissingTimestamp)
      else if \<not> isValidChargerId (ev_chargerId event)
        then (if ToString_throws (ev_chargerId event) then Inl TypeError
              else Inr (Invalid InvalidChargerIdFormat))
      else if \<not> isValidTimestamp impl (ev_timestamp event)
        then (if ToString_throws (ev_timestamp event) then Inl TypeError
              else Inr (Invalid InvalidTimestampFormat))
      else case (ev_chargerId event, ev_timestamp event) of
             (JStr cid, JStr ts) \<Rightarrow>
               (let parsedTimestamp = newDate impl ts in
                if isFutureTimestamp now parsedTimestamp then Inr (Invalid FutureTimestamp)
                else Inr (IsValid \<lparr>ve_chargerId = cid, ve_timestamp = parsedTimestamp,
                                    ve_data = ev_data event\<rparr>))
           | _ \<Rightarrow> Inr (Invalid InvalidTimestampFormat))"

text \<open>
  The validator as documented, written without the source's functions. A field is present
  and non-empty when it is neither absent nor null nor an empty value (the empty string;
  for a value that is no string: zero, NaN, false). The identifier pattern is the
  character class by its code-unit ranges. A timestamp is canonical when it reads as an
  instant of the interchange format, within the range of time values, whose serialisation
  is the string itself; that instant is the parsed timestamp of the fifth check.
\<close>

definition present_nonempty :: "jsval \<Rightarrow> bool" where
  "present_nonempty v =
     (v \<noteq> JUndefined \<and> v \<noteq> JNull \<and> v \<noteq> JStr [] \<and> v \<noteq> JNum (Finite 0) \<and> v \<noteq> JNum NaN \<and>
      v \<noteq> JBool False)"

definition in_id_class :: "char \<Rightarrow> bool" where
  "in_id_class c =
     (let n = (of_char c :: nat)
      in (65 \<le> n \<and> n \<le> 90) \<or> (97 \<le> n \<and> n \<le> 122) \<or> (48 \<le> n \<and> n \<le> 57) \<or> n = 95 \<or> n = 45)"

definition matches_id_pattern :: "jsval \<Rightarrow> bool" where
  "matches_id_pattern v = (case v of JStr s \<Rightarrow> s \<noteq> [] \<and> list_all in_id_class s | _ \<Rightarrow> False)"

definition canonical_instant :: "jsval \<Rightarrow> int option" where
  "canonical_instant v =
     (case v of
        JStr s \<Rightarrow>
          (case parseIsoFull s of
             Some t \<Rightarrow> if \<bar>t\<bar> \<le> maxTime \<and> isoString t = s then Some t else None
           | None \<Rightarrow> None)
      | _ \<Rightarrow> None)"

definition documented_checks :: "int \<Rightarrow> TelemetryEvent \<Rightarrow> (bool \<times> rejectionReason) list" where
  "documented_checks now event =
     [(present_nonempty (ev_chargerId event), MissingChargerId),
      (present_nonempty (ev_timestamp event), MissingTimestamp),
      (matches_id_pattern (ev_chargerId event), InvalidChargerIdFormat),
      (canonical_instant (ev_timestamp event) \<noteq> None, InvalidTimestampFormat),
      ((case canonical_instant (ev_timestamp event) of
          Some t \<Rightarrow> t \<le> now + 5 * 60 * 1000 | None \<Rightarrow> True), FutureTimestamp)]"

fun first_failing :: "(bool \<times> rejectionReason) list \<Rightarrow> rejectionReason option" where
  "first_failing [] = None"
| "first_failing ((ok, r) # cs) = (if ok then first_failing cs else Some r)"

definition documented_validate :: "int \<Rightarrow> TelemetryEvent \<Rightarrow> ValidationResult" where
  "documented_validate now event =
     (case first_failing (documented_checks now event) of
        Some r \<Rightarrow> Invalid r
      | None \<Rightarrow>
          IsValid \<lparr>ve_chargerId = (case ev_chargerId event of JStr s \<Rightarrow> s | _ \<Rightarrow> []),
                   ve_timestamp = (case canonical_instant (ev_timestamp event) of
                                     Some t \<Rightarrow> ValidDate t | None \<Rightarrow> InvalidDate),
                   ve_data = ev_data event\<rparr>)"

section \<open>Effects of the handlers\<close>

text \<open>
  A handler's calls to the outside are recorded in order: the logger (the message only),
  CloudWatch, Lambda and DynamoDB. What each service answers is a parameter of the handler
  (\<open>None\<close>: the call succeeded, \<open>Some e\<close>: it threw \<open>e\<close>). A handler ends by returning a
  value or by throwing to the Lambda runtime. Left out: the time stamp of a metric datum
  and the constant \<^verbatim>\<open>Content-Type\<close> header of a response. The stored record's
  \<^verbatim>\<open>metadata\<close> object is flattened into two fields.
\<close>

record MetricDatum =
  MetricName :: string
  Value :: int
  Unit :: string
  Dimensions :: "(string \<times> string) list option"

record ProcessedEvent =
  pe_eventId :: string
  pe_chargerId :: string
  pe_timestamp :: jsdate
  pe_data :: jsval
  pe_receivedAt :: jsdate
  pe_processedAt :: jsdate

record StoredEvent =
  se_eventId :: string
  se_chargerId :: string
  se_timestamp :: string
  se_data :: jsval
  se_receivedAt :: string
  se_processedAt :: string
  se_ttl :: int

datatype effect =
    PutMetricData "MetricDatum list"
  | InvokeProcessor ValidatedEvent
  | PutItem StoredEvent
  | QueryLatest string
  | Log string

datatype 'a outcome = Returned 'a | Thrown error

definition reasonName :: "rejectionReason \<Rightarrow> string" where
  "reasonName r =
     (case r of MissingChargerId \<Rightarrow> ''MissingChargerId''
      | MissingTimestamp \<Rightarrow> ''MissingTimestamp''
      | InvalidChargerIdFormat \<Rightarrow> ''InvalidChargerIdFormat''
      | InvalidTimestampFormat \<Rightarrow> ''InvalidTimestampFormat''
      | FutureTimestamp \<Rightarrow> ''FutureTimestamp'')"

text \<open>A service that always answers.\<close>

definition always_ok :: "'a \<Rightarrow> error option" where
  "always_ok x = None"

section \<open>Validator handler\<close>

text \<open>The \<^verbatim>\<open>catch\<close> around the send logs and goes on: the function never throws.\<close>

definition publishValidationMetrics ::
    "(MetricDatum list \<Rightarrow> error option) \<Rightarrow> bool \<Rightarrow> rejectionReason option \<Rightarrow> effect list" where
  "publishValidationMetrics cloudwatch validated rejection =
     (let metricData =
            (if validated
             then [\<lparr>MetricName = ''EventsValidated'', Value = 1, Unit = ''Count'',
                    Dimensions = None\<rparr>]
             else [\<lparr>MetricName = ''EventsRejected'', Value = 1, Unit = ''Count'',
                    Dimensions = (case rejection of None \<Rightarrow> None
                                  | Some r \<Rightarrow> Some [(''RejectionReason'', reasonName r)])\<rparr>])
      in PutMetricData metricData #
         (case cloudwatch metricData of None \<Rightarrow> []
          | Some e \<Rightarrow> [Log ''Failed to publish validation metrics:'']))"

text \<open>
  The call of \<^verbatim>\<open>validateEvent\<close> stands outside every \<^verbatim>\<open>try\<close>: when it throws, the
  handler throws, after its first log line only.
\<close>

definition validator_handler ::
    "(string \<Rightarrow> int option) \<Rightarrow> int \<Rightarrow> (MetricDatum list \<Rightarrow> error option) \<Rightarrow>
     (ValidatedEvent \<Rightarrow> error option) \<Rightarrow> TelemetryEvent \<Rightarrow> effect list \<times> unit outcome" where
  "validator_handler impl now cloudwatch invoke event =
     (case validateEvent impl now event of
        Inl e \<Rightarrow> ([Log ''Received event:''], Thrown e)
      | Inr validationResult \<Rightarrow>
          (case validationResult of
             Invalid r \<Rightarrow>
               ([Log ''Received event:'', Log ''Validation error:''] @
                publishValidationMetrics cloudwatch False (Some r),
                Returned ())
           | IsValid validatedEvent \<Rightarrow>
               (let fx = [Log ''Received event:''] @
                         publishValidationMetrics cloudwatch True None @
                         [InvokeProcessor validatedEvent]
                in case invoke validatedEvent of
                     None \<Rightarrow>
                       (fx @ [Log ''Successfully forwarded event to Processor Lambda:''],
                        Returned ())
                   | Some e \<Rightarrow> (fx @ [Log ''Failed to invoke Processor Lambda:''], Thrown e))))"

section \<open>Event processor\<close>

definition TTL_DAYS :: int where
  "TTL_DAYS = 90"

text \<open>
  \<open>uuid\<close> is what \<^verbatim>\<open>randomUUID()\<close> returned and \<open>now\<close> the time value of
  \<^verbatim>\<open>new Date()\<close>. \<^verbatim>\<open>new Date(d)\<close> of a Date \<open>d\<close> copies its time value. (Between
  the two Lambdas the event travels as JSON with the timestamp as its ISO string;
  \<^verbatim>\<open>new Date\<close> of that string is the same instant, by \<open>newDate_isoString\<close> below.)
\<close>

definition enrichEvent :: "string \<Rightarrow> int \<Rightarrow> ValidatedEvent \<Rightarrow> ProcessedEvent" where
  "enrichEvent uuid now validatedEvent =
     \<lparr>pe_eventId = uuid,
      pe_chargerId = ve_chargerId validatedEvent,
      pe_timestamp = ve_timestamp validatedEvent,
      pe_data = ve_data validatedEvent,
      pe_receivedAt = ValidDate now,
      pe_processedAt = ValidDate now\<rparr>"

text \<open>
  \<open>nowMs\<close> is \<^verbatim>\<open>Date.now()\<close>. The quotient \<^verbatim>\<open>Date.now() / 1000\<close> is a double, and
  its floor is \<open>nowMs div 1000\<close>: below \<open>2^53\<close> the nearest double to a quotient that is
  not whole lies on the same side of every whole number.
\<close>

definition toStoredEvent :: "int \<Rightarrow> ProcessedEvent \<Rightarrow> error + StoredEvent" where
  "toStoredEvent nowMs processedEvent =
     (let ttl = nowMs div 1000 + TTL_DAYS * 24 * 60 * 60 in
      case toISOString (pe_timestamp processedEvent) of
        Inl e \<Rightarrow> Inl e
      | Inr ts \<Rightarrow>
          (case toISOString (pe_receivedAt processedEvent) of
             Inl e \<Rightarrow> Inl e
           | Inr ra \<Rightarrow>
               (case toISOString (pe_processedAt processedEvent) of
                  Inl e \<Rightarrow> Inl e
                | Inr pa \<Rightarrow>
                    Inr \<lparr>se_eventId = pe_eventId processedEvent,
                         se_chargerId = pe_chargerId processedEvent,
                         se_timestamp = ts,
                         se_data = pe_data processedEvent,
                         se_receivedAt = ra,
                         se_processedAt = pa,
                         se_ttl = ttl\<rparr>)))"

definition publishMetrics ::
    "(MetricDatum list \<Rightarrow> error option) \<Rightarrow> int \<Rightarrow> string \<Rightarrow> effect list" where
  "publishMetrics cloudwatch processingDuration status =
     (let metricData =
            [\<lparr>MetricName = ''ProcessingDuration'', Value = processingDuration,
              Unit = ''Milliseconds'', Dimensions = None\<rparr>,
             \<lparr>MetricName = ''EventsProcessed'', Value = 1, Unit = ''Count'',
              Dimensions = Some [(''Status'', status)]\<rparr>]
      in PutMetricData metricData #
         (case cloudwatch metricData of None \<Rightarrow> []
          | Some e \<Rightarrow> [Log ''Failed to publish metrics:'']))"

record processor_env =
  p_uuid :: string
  p_startTime :: int
  p_enrichNow :: int
  p_storeNow :: int
  p_endTime :: int
  p_cloudwatch :: "MetricDatum list \<Rightarrow> error option"
  p_dynamoPut :: "StoredEvent \<Rightarrow> error option"

section \<open>Health check\<close>

datatype health = Healthy | Degraded | Unhealthy

record ComponentStatus =
  dynamodb :: health
  dlq :: "health option"
  dlqDepth :: "int option option"

record HealthResponse =
  hr_status :: health
  hr_components :: ComponentStatus

text \<open>
  The answer of \<^verbatim>\<open>DescribeTable\<close>: an error, or the table status when the answer
  has one.
\<close>

definition checkDynamoDBHealth :: "error + string option \<Rightarrow> health" where
  "checkDynamoDBHealth describe =
     (case describe of
        Inl e \<Rightarrow> Unhealthy
      | Inr tableStatus \<Rightarrow> if tableStatus = Some ''ACTIVE'' then Healthy else Unhealthy)"

text \<open>
  \<^verbatim>\<open>parseInt(s, 10)\<close>: leading white space, a sign, then the longest run of digits;
  NaN (\<open>None\<close>) when there is no digit. A result beyond \<open>2^53\<close> is rounded to a double in
  the source; rounding is monotone, so the comparison with 10 is the one made here.
\<close>

definition isWhiteSpace :: "char \<Rightarrow> bool" where
  "isWhiteSpace c = ((of_char c :: nat) \<in> {9, 10, 11, 12, 13, 32, 160})"

definition parseInt10 :: "string \<Rightarrow> int option" where
  "parseInt10 s =
     (let s1 = dropWhile isWhiteSpace s;
          sign = (case s1 of c # r \<Rightarrow> if c = CHR ''-'' then - 1 else 1 | [] \<Rightarrow> 1);
          s2 = (case s1 of c # r \<Rightarrow> if c = CHR ''-'' \<or> c = CHR ''+'' then r else s1 | [] \<Rightarrow> s1);
          ds = takeWhile (\<lambda>c. digit_val c \<noteq> None) s2
      in if ds = [] then None
         else case digits_acc 0 ds of None \<Rightarrow> None | Some n \<Rightarrow> Some (sign * n))"

definition exceeds10 :: "int option \<Rightarrow> bool" where
  "exceeds10 depth = (case depth of None \<Rightarrow> False | Some n \<Rightarrow> 10 < n)"

text \<open>
  \<open>dlq_url\<close> is the environment variable \<^verbatim>\<open>DLQ_URL\<close>; \<open>sqs\<close> is the answer of
  \<^verbatim>\<open>GetQueueAttributes\<close>: an error, or the attribute when the answer has it.
\<close>

definition checkDLQHealth :: "string option \<Rightarrow> error + string option \<Rightarrow> health \<times> int option" where
  "checkDLQHealth dlq_url sqs =
     (if dlq_url = None \<or> dlq_url = Some [] then (Healthy, Some 0)
      else case sqs of
             Inl e \<Rightarrow> (Healthy, Some 0)
           | Inr attr \<Rightarrow>
               (let depth = parseInt10 (case attr of None \<Rightarrow> ''0''
                                        | Some a \<Rightarrow> if a = [] then ''0'' else a);
                    status = (if exceeds10 depth then Degraded else Healthy)
                in (status, depth)))"

definition health_response ::
    "string option \<Rightarrow> error + string option \<Rightarrow> error + string option \<Rightarrow> HealthResponse" where
  "health_response dlq_url describe sqs =
     (let dynamoHealth = checkDynamoDBHealth describe;
          dlqHealth = checkDLQHealth dlq_url sqs;
          components =
            (if dlq_url = None \<or> dlq_url = Some []
             then \<lparr>dynamodb = dynamoHealth, dlq = None, dlqDepth = None\<rparr>
             else \<lparr>dynamodb = dynamoHealth, dlq = Some (fst dlqHealth),
                   dlqDepth = Some (snd dlqHealth)\<rparr>);
          overallStatus =
            (if dynamoHealth = Unhealthy then Unhealthy
             else if fst dlqHealth = Degraded then Degraded
             else Healthy)
      in \<lparr>hr_status = overallStatus, hr_components = components\<rparr>)"

section \<open>Responses\<close>

record QueryResponse =
  qr_chargerId :: string
  qr_timestamp :: string
  qr_data :: jsval
  qr_receivedAt :: string
  qr_processedAt :: string

datatype responseBody =
    ProcessedBody string string
  | StatusBody string string
  | QueryBody QueryResponse
  | HealthBody HealthResponse

record api_result =
  statusCode :: int
  body :: responseBody

text \<open>
  Both sub-checks catch their own errors, so the \<^verbatim>\<open>catch\<close> of the health handler
  (status 500) has nothing to catch.
\<close>

definition health_handler ::
    "string option \<Rightarrow> error + string option \<Rightarrow> error + string option \<Rightarrow> api_result outcome" where
  "health_handler dlq_url describe sqs =
     Returned \<lparr>statusCode = 200, body = HealthBody (health_response dlq_url describe sqs)\<rparr>"

text \<open>
  The processor handler: everything from enrichment to the success metric is inside one
  \<^verbatim>\<open>try\<close>; the \<^verbatim>\<open>catch\<close> logs, publishes the failure metric and throws the error
  again.
\<close>

definition processor_handler ::
    "processor_env \<Rightarrow> ValidatedEvent \<Rightarrow> effect list \<times> api_result outcome" where
  "processor_handler env event =
     (let processedEvent = enrichEvent (p_uuid env) (p_enrichNow env) event;
          processingDuration = p_endTime env - p_startTime env;
          fx0 = [Log ''Processing validated event:'', Log ''Enriched event with metadata:''];
          failed = (\<lambda>fx e. (fx @ [Log ''Failed to process event:''] @
                             publishMetrics (p_cloudwatch env) processingDuration ''failure'',
                             Thrown e))
      in case toStoredEvent (p_storeNow env) processedEvent of
           Inl e \<Rightarrow> failed fx0 e
         | Inr storedEvent \<Rightarrow>
             (case p_dynamoPut env storedEvent of
                Some e \<Rightarrow> failed (fx0 @ [PutItem storedEvent]) e
              | None \<Rightarrow>
                  (fx0 @ [PutItem storedEvent, Log ''Successfully stored event in DynamoDB:''] @
                   publishMetrics (p_cloudwatch env) processingDuration ''success'',
                   Returned \<lparr>statusCode = 200,
                             body = ProcessedBody ''Event processed successfully''
                                      (pe_eventId processedEvent)\<rparr>)))"

section \<open>Query service\<close>

text \<open>
  An item read from the table is cast to \<^verbatim>\<open>StoredEvent\<close> unchecked. Reading
  \<^verbatim>\<open>metadata.receivedAt\<close> of an item without \<^verbatim>\<open>metadata\<close> throws a TypeError.
\<close>

datatype db_item = WellFormed StoredEvent | NoMetadata

record APIGatewayProxyEvent =
  pathParameters :: "(string \<rightharpoonup> string) option"

record query_env =
  q_startTime :: int
  q_afterQuery :: int
  q_catchTime :: int
  q_cloudwatch :: "MetricDatum list \<Rightarrow> error option"
  q_dynamoQuery :: "string \<Rightarrow> error + db_item list option"

definition publishQueryMetrics :: "(MetricDatum list \<Rightarrow> error option) \<Rightarrow> int \<Rightarrow> effect list" where
  "publishQueryMetrics cloudwatch duration =
     (let metricData =
            [\<lparr>MetricName = ''QueryDuration'', Value = duration, Unit = ''Milliseconds'',
              Dimensions = None\<rparr>]
      in PutMetricData metricData #
         (case cloudwatch metricData of None \<Rightarrow> []
          | Some e \<Rightarrow> [Log ''Failed to publish query metrics:'']))"

definition missingParameter :: api_result where
  "missingParameter =
     \<lparr>statusCode = 400,
      body = StatusBody ''error'' ''Missing required path parameter: chargerId''\<rparr>"

definition notFound :: api_result where
  "notFound = \<lparr>statusCode = 404, body = StatusBody ''not_found'' ''No telemetry found for charger''\<rparr>"

definition internalError :: api_result where
  "internalError = \<lparr>statusCode = 500, body = StatusBody ''error'' ''Internal server error''\<rparr>"

text \<open>\<^verbatim>\<open>event.pathParameters?.chargerId\<close>; \<open>None\<close> is undefined.\<close>

definition pathChargerId :: "APIGatewayProxyEvent \<Rightarrow> string option" where
  "pathChargerId event = (case pathParameters event of None \<Rightarrow> None | Some ps \<Rightarrow> ps ''chargerId'')"

text \<open>The body of the \<^verbatim>\<open>try\<close>: its effects, and the response or the error thrown.\<close>

definition query_try :: "query_env \<Rightarrow> APIGatewayProxyEvent \<Rightarrow> effect list \<times> (error + api_result)" where
  "query_try env event =
     (let chargerId = pathChargerId event
      in case chargerId of
           None \<Rightarrow> ([], Inr missingParameter)
         | Some cid \<Rightarrow>
             (if cid = [] then ([], Inr missingParameter)
              else (case q_dynamoQuery env cid of
                      Inl e \<Rightarrow> ([QueryLatest cid], Inl e)
                    | Inr items \<Rightarrow>
                        (let fx = QueryLatest cid #
                                  publishQueryMetrics (q_cloudwatch env)
                                    (q_afterQuery env - q_startTime env)
                         in (case items of
                               None \<Rightarrow> (fx, Inr notFound)
                             | Some its \<Rightarrow>
                                 (case its of
                                    [] \<Rightarrow> (fx, Inr notFound)
                                  | item # rest \<Rightarrow>
                                      (case item of
                                         NoMetadata \<Rightarrow> (fx, Inl TypeError)
                                       | WellFormed storedEvent \<Rightarrow>
                                           (fx, Inr \<lparr>statusCode = 200,
                                                     body = QueryBody
                                                       \<lparr>qr_chargerId = se_chargerId storedEvent,
                                                        qr_timestamp = se_timestamp storedEvent,
                                                        qr_data = se_data storedEvent,
                                                        qr_receivedAt = se_receivedAt storedEvent,
                                                        qr_processedAt = se_processedAt storedEvent\<rparr>\<rparr>))))))))"

definition query_handler :: "query_env \<Rightarrow> APIGatewayProxyEvent \<Rightarrow> effect list \<times> api_result outcome" where
  "query_handler env event =
     (case query_try env event of
        (fx, Inr response) \<Rightarrow> (fx, Returned response)
      | (fx, Inl e) \<Rightarrow>
          (fx @ [Log ''Error querying telemetry:''] @
           publishQueryMetrics (q_cloudwatch env) (q_catchTime env - q_startTime env),
           Returned internalError))"

text \<open>Example tables: one with no item for any charger, one that cannot be reached.\<close>

definition empty_table :: "string \<Rightarrow> error + db_item list option" where
  "empty_table cid = Inr (Some [])"

definition failing_table :: "string \<Rightarrow> error + db_item list option" where
  "failing_table cid = Inl (ServiceError ''ProvisionedThroughputExceededException'')"

definition failing_service :: "'a \<Rightarrow> error option" where
  "failing_service x = Some (ServiceError ''ServiceUnavailable'')"

text \<open>Whether a trace holds a measurement of the given name.\<close>

definition emits :: "string \<Rightarrow> effect list \<Rightarrow> bool" where
  "emits name fx =
     list_ex (\<lambda>f. case f of PutMetricData ms \<Rightarrow> list_ex (\<lambda>m. MetricName m = name) ms
                  | _ \<Rightarrow> False) fx"

definition invokes :: "effect list \<Rightarrow> bool" where
  "invokes fx = list_ex (\<lambda>f. case f of InvokeProcessor v \<Rightarrow> True | _ \<Rightarrow> False) fx"

section \<open>Calendar arithmetic\<close>

lemma div_bounds:
  fixes a k :: int
  assumes "0 < k"
  shows "k * (a div k) \<le> a" and "a < k * (a div k) + k"
proof -
  have "a = k * (a div k) + a mod k" by simp
  moreover have "0 \<le> a mod k" "a mod k < k" using assms by simp_all
  ultimately show "k * (a div k) \<le> a" and "a < k * (a div k) + k" by linarith+
qed

lemma div_succ:
  fixes a k :: int
  assumes k: "0 < k"
  shows "(a + 1) div k = a div k + (if (a + 1) mod k = 0 then 1 else 0)"
proof (cases "a mod k = k - 1")
  case True
  have dist: "k * (a div k + 1) = k * (a div k) + k"
    by (simp add: algebra_simps)
  have eq: "a + 1 = k * (a div k + 1) + 0"
    using True mult_div_mod_eq[of k a] dist by linarith
  have z: "(0::int) \<le> 0" "0 < k" using k by simp_all
  have "(a + 1) div k = a div k + 1"
    using int_div_pos_eq[OF eq z] .
  moreover have "(a + 1) mod k = 0"
    using int_mod_pos_eq[OF eq z] .
  ultimately show ?thesis by simp
next
  case False
  have r: "0 \<le> a mod k + 1" "a mod k + 1 < k"
    using False k pos_mod_bound[of k a] pos_mod_sign[of k a] by linarith+
  have eq: "a + 1 = k * (a div k) + (a mod k + 1)"
    using mult_div_mod_eq[of k a] by linarith
  have "(a + 1) div k = a div k"
    using int_div_pos_eq[OF eq r] .
  moreover have "(a + 1) mod k = a mod k + 1"
    using int_mod_pos_eq[OF eq r] .
  moreover have "a mod k + 1 \<noteq> 0" using pos_mod_sign[of k a] k by linarith
  ultimately show ?thesis by simp
qed

lemma DayFromYear_bounds_aux:
  fixes Y q4 q100 q400 :: int
  assumes "4 * q4 \<le> Y + 1" "Y + 1 < 4 * q4 + 4"
    and "100 * q100 \<le> Y + 69" "Y + 69 < 100 * q100 + 100"
    and "400 * q400 \<le> Y + 369" "Y + 369 < 400 * q400 + 400"
  shows "146097 * Y - 607 \<le> 400 * (365 * Y + q4 - q100 + q400)"
    and "400 * (365 * Y + q4 - q100 + q400) \<le> 146097 * Y + 593"
proof -
  have h4l: "100 * Y - 300 \<le> 400 * q4" using assms(2) by linarith
  have h4u: "400 * q4 \<le> 100 * Y + 100" using assms(1) by linarith
  have h100l: "4 * Y - 124 \<le> 400 * q100" using assms(4) by linarith
  have h100u: "400 * q100 \<le> 4 * Y + 276" using assms(3) by linarith
  have h400l: "Y - 31 \<le> 400 * q400" using assms(6) by linarith
  have h400u: "400 * q400 \<le> Y + 369" using assms(5) by linarith
  have E: "400 * (365 * Y + q4 - q100 + q400) = 146000 * Y + 400 * q4 - 400 * q100 + 400 * q400"
    by (simp add: algebra_simps)
  show "146097 * Y - 607 \<le> 400 * (365 * Y + q4 - q100 + q400)"
    unfolding E using h4l h100u h400l by linarith
  show "400 * (365 * Y + q4 - q100 + q400) \<le> 146097 * Y + 593"
    unfolding E using h4u h100l h400u by linarith
qed

lemma DayFromYear_bounds:
  "146097 * (y - 1970) - 607 \<le> 400 * DayFromYear y"
  "400 * DayFromYear y \<le> 146097 * (y - 1970) + 593"
proof -
  define Y where "Y = y - 1970"
  have s: "y - 1969 = Y + 1" "y - 1901 = Y + 69" "y - 1601 = Y + 369"
    by (simp_all add: Y_def)
  have D: "DayFromYear y = 365 * Y + (Y + 1) div 4 - (Y + 69) div 100 + (Y + 369) div 400"
    unfolding DayFromYear_def s Y_def[symmetric] ..
  note aux = DayFromYear_bounds_aux[OF div_bounds[of 4 "Y + 1"] div_bounds[of 100 "Y + 69"]
      div_bounds[of 400 "Y + 369"]]
  show "146097 * (y - 1970) - 607 \<le> 400 * DayFromYear y"
    unfolding D Y_def[symmetric] by (rule aux(1)) simp_all
  show "400 * DayFromYear y \<le> 146097 * (y - 1970) + 593"
    unfolding D Y_def[symmetric] by (rule aux(2)) simp_all
qed

lemma mod_shift: "(y - k * c) mod k = y mod (k::int)"
  by (metis mod_mult_self1 add.commute mult.commute uminus_add_conv_diff mult_minus_left)

lemma DayFromYear_step: "DayFromYear (y + 1) = DayFromYear y + DaysInYear y"
proof -
  have m4: "(y - 1969 + 1) mod 4 = y mod 4"
    using mod_shift[of y 4 492] by simp
  have m100: "(y - 1901 + 1) mod 100 = y mod 100"
    using mod_shift[of y 100 19] by simp
  have m400: "(y - 1601 + 1) mod 400 = y mod 400"
    using mod_shift[of y 400 4] by simp
  have a: "(y + 1 - 1969) div 4 = (y - 1969) div 4 + (if y mod 4 = 0 then 1 else 0)"
    using div_succ[of 4 "y - 1969"] m4 by (simp add: algebra_simps)
  have b: "(y + 1 - 1901) div 100 = (y - 1901) div 100 + (if y mod 100 = 0 then 1 else 0)"
    using div_succ[of 100 "y - 1901"] m100 by (simp add: algebra_simps)
  have c: "(y + 1 - 1601) div 400 = (y - 1601) div 400 + (if y mod 400 = 0 then 1 else 0)"
    using div_succ[of 400 "y - 1601"] m400 by (simp add: algebra_simps)
  have d1: "y mod 400 = 0 \<Longrightarrow> y mod 100 = 0"
    using mod_mod_cancel[of 100 400 y] by simp
  have d2: "y mod 100 = 0 \<Longrightarrow> y mod 4 = 0"
    using mod_mod_cancel[of 4 100 y] by simp
  show ?thesis
    unfolding DayFromYear_def DaysInYear_def a b c using d1 d2 by auto
qed

lemma YearFromDay_spec:
  "DayFromYear (YearFromDay d) \<le> d" "d < DayFromYear (YearFromDay d + 1)"
proof -
  define e where "e = 1970 + (400 * d) div 146097"
  define q where "q = (400 * d) div 146097"
  have q: "146097 * q \<le> 400 * d" "400 * d < 146097 * q + 146097"
    using div_bounds[of 146097 "400 * d"] by (simp_all add: q_def)
  have eq: "e = 1970 + q" by (simp add: e_def q_def)
  have b1: "400 * DayFromYear (e - 1) \<le> 146097 * q - 145504"
    using DayFromYear_bounds(2)[of "e - 1"] unfolding eq by simp
  have b2: "146097 * q + 291587 \<le> 400 * DayFromYear (e + 2)"
    using DayFromYear_bounds(1)[of "e + 2"] unfolding eq by simp
  have lo: "DayFromYear (e - 1) \<le> d"
    using b1 q(1) by linarith
  have hi: "d < DayFromYear (e + 2)"
    using b2 q(2) by linarith
  have Y: "YearFromDay d = (if DayFromYear (e + 1) \<le> d then e + 1
      else if DayFromYear e \<le> d then e else e - 1)"
    by (simp add: YearFromDay_def e_def Let_def)
  show "DayFromYear (YearFromDay d) \<le> d"
    using lo by (simp add: Y)
  have e2: "e + 1 + 1 = e + 2" "e - 1 + 1 = e" by simp_all
  show "d < DayFromYear (YearFromDay d + 1)"
    using hi by (auto simp add: Y e2)
qed



lemma of_char_digit_char:
  assumes "0 \<le> n" "n \<le> 9"
  shows "of_char (digit_char n) = 48 + n"
proof -
  have "(48 + n) mod 256 = 48 + n"
    using assms by simp
  then show ?thesis
    by (simp add: digit_char_def)
qed

lemma digit_val_digit_char: "0 \<le> n \<Longrightarrow> n \<le> 9 \<Longrightarrow> digit_val (digit_char n) = Some n"
  by (simp add: digit_val_def of_char_digit_char)

lemma digit_char_not_sign:
  assumes "0 \<le> n" "n \<le> 9"
  shows "digit_char n \<noteq> CHR ''+''" "digit_char n \<noteq> CHR ''-''"
proof -
  have "(of_char (digit_char n) :: int) \<noteq> of_char CHR ''+''"
    using assms by (simp add: of_char_digit_char)
  then show "digit_char n \<noteq> CHR ''+''" by auto
  have "(of_char (digit_char n) :: int) \<noteq> of_char CHR ''-''"
    using assms by (simp add: of_char_digit_char)
  then show "digit_char n \<noteq> CHR ''-''" by auto
qed

lemma length_pad: "length (pad w k) = w"
  by (induction w arbitrary: k) simp_all

lemma digits_acc_append:
  "digits_acc a (xs @ ys) = (case digits_acc a xs of None \<Rightarrow> None | Some b \<Rightarrow> digits_acc b ys)"
  by (induction xs arbitrary: a) (simp_all split: option.splits)

lemma digits_acc_pad:
  "0 \<le> k \<Longrightarrow> k < 10 ^ w \<Longrightarrow> digits_acc a (pad w k) = Some (a * 10 ^ w + k)"
proof (induction w arbitrary: k)
  case 0
  then show ?case by simp
next
  case (Suc w)
  have k10a: "0 \<le> k div 10"
    using Suc.prems(1) by simp
  have "10 * (k div 10) \<le> k" using div_bounds(1)[of 10 k] by simp
  moreover have "k < 10 * 10 ^ w" using Suc.prems(2) by simp
  ultimately have k10b: "k div 10 < 10 ^ w" by linarith
  note k10 = k10a k10b
  have m1: "0 \<le> k mod 10" by simp
  have m2: "k mod 10 \<le> 9" using pos_mod_bound[of 10 k] by linarith
  note m = m1 m2
  have "digits_acc a (pad (Suc w) k) = Some (10 * (a * 10 ^ w + k div 10) + k mod 10)"
    by (simp add: digits_acc_append Suc.IH[OF k10] digit_val_digit_char[OF m])
  also have "10 * (a * 10 ^ w + k div 10) + k mod 10 = a * 10 ^ Suc w + k"
    using mult_div_mod_eq[of 10 k] by (simp add: algebra_simps)
  finally show ?case .
qed

lemma take_digits_pad:
  "0 \<le> k \<Longrightarrow> k < 10 ^ w \<Longrightarrow> take_digits w (pad w k @ rest) = Some (k, rest)"
  by (simp add: take_digits_def length_pad digits_acc_pad)

lemma pad_Suc_head: "\<exists>c cs. pad (Suc w) k = digit_char c # cs \<and> 0 \<le> c \<and> c \<le> 9"
proof (induction w arbitrary: k)
  case 0
  have "0 \<le> k mod 10" "k mod 10 \<le> 9"
    using pos_mod_bound[of 10 k] by simp_all
  then show ?case by auto
next
  case (Suc w)
  obtain c cs where "pad (Suc w) (k div 10) = digit_char c # cs" "0 \<le> c" "c \<le> 9"
    using Suc.IH by blast
  then have "pad (Suc (Suc w)) k = digit_char c # (cs @ [digit_char (k mod 10)]) \<and> 0 \<le> c \<and> c \<le> 9"
    by simp
  then show ?case by blast
qed

lemma day_in_year:
  "0 \<le> d - DayFromYear (YearFromDay d)"
  "d - DayFromYear (YearFromDay d) < DaysInYear (YearFromDay d)"
  using YearFromDay_spec[of d] DayFromYear_step[of "YearFromDay d"] by linarith+

lemma monthStart_simps:
  "monthStart leap 0 = 0" "monthStart leap 1 = 31"
  "monthStart leap 2 = 59 + (if leap then 1 else 0)"
  "monthStart leap 3 = 90 + (if leap then 1 else 0)"
  "monthStart leap 4 = 120 + (if leap then 1 else 0)"
  "monthStart leap 5 = 151 + (if leap then 1 else 0)"
  "monthStart leap 6 = 181 + (if leap then 1 else 0)"
  "monthStart leap 7 = 212 + (if leap then 1 else 0)"
  "monthStart leap 8 = 243 + (if leap then 1 else 0)"
  "monthStart leap 9 = 273 + (if leap then 1 else 0)"
  "monthStart leap 10 = 304 + (if leap then 1 else 0)"
  "monthStart leap 11 = 334 + (if leap then 1 else 0)"
  "monthStart leap 12 = 365 + (if leap then 1 else 0)"
  by (simp_all add: monthStart_def)

lemma month_bracket:
  assumes "0 \<le> n" "n < (if leap then 366 else 365)"
  shows "0 \<le> MonthInYear leap n" "MonthInYear leap n \<le> 11"
    and "monthStart leap (MonthInYear leap n) \<le> n"
    and "n < monthStart leap (MonthInYear leap n + 1)"
  using assms by (auto simp add: MonthInYear_def monthStart_simps split: if_splits)

lemma month_length_le:
  assumes "0 \<le> m" "m \<le> 11"
  shows "monthStart leap (m + 1) - monthStart leap m \<le> 31"
proof -
  have "m = 0 \<or> m = 1 \<or> m = 2 \<or> m = 3 \<or> m = 4 \<or> m = 5 \<or> m = 6 \<or> m = 7 \<or> m = 8
        \<or> m = 9 \<or> m = 10 \<or> m = 11"
    using assms by arith
  then show ?thesis
    by (elim disjE) (simp_all add: monthStart_simps)
qed

lemma leap_days: "(if InLeapYear y then 366 else 365) = DaysInYear y"
  by (simp add: InLeapYear_def DaysInYear_def)

lemma MonthFromDay_range: "0 \<le> MonthFromDay d" "MonthFromDay d \<le> 11"
  using month_bracket(1,2)[of "d - DayFromYear (YearFromDay d)" "InLeapYear (YearFromDay d)"]
    day_in_year[of d]
  by (simp_all add: MonthFromDay_def Let_def leap_days)

lemma DateFromDay_range:
  "1 \<le> DateFromDay d" "DateFromDay d \<le> DaysInMonth (YearFromDay d) (MonthFromDay d)"
  using month_bracket(3,4)[of "d - DayFromYear (YearFromDay d)" "InLeapYear (YearFromDay d)"]
    day_in_year[of d]
  by (simp_all add: MonthFromDay_def DateFromDay_def DaysInMonth_def Let_def leap_days)

lemma DateFromDay_le_31: "DateFromDay d \<le> 31"
  using DateFromDay_range(2)[of d] MonthFromDay_range[of d]
    month_length_le[of "MonthFromDay d" "InLeapYear (YearFromDay d)"]
  by (simp add: DaysInMonth_def)

lemma MakeDay_roundtrip: "MakeDay (YearFromDay d) (MonthFromDay d) (DateFromDay d) = d"
  by (simp add: MakeDay_def DateFromDay_def Let_def)

lemma time_fields:
  assumes "0 \<le> tw" "tw < 86400000"
  shows "MakeTime (tw div 3600000 mod 24) (tw div 60000 mod 60) (tw div 1000 mod 60) (tw mod 1000) = tw"
    and "tw div 3600000 mod 24 \<le> 23"
proof -
  define a where "a = tw div 1000"
  define b where "b = a div 60"
  define h where "h = b div 60"
  have e1: "tw div 60000 = b"
    using zdiv_zmult2_eq[of 60 tw 1000] by (simp add: a_def b_def)
  have e2: "tw div 3600000 = h"
    using zdiv_zmult2_eq[of 60 tw 60000] e1 by (simp add: h_def)
  have h0: "0 \<le> h" using assms(1) e2[symmetric] by simp
  have "tw div 3600000 \<le> 86399999 div 3600000"
    by (rule zdiv_mono1) (use assms in simp_all)
  then have h23: "h \<le> 23" using e2 by simp
  have hm: "h mod 24 = h" using h0 h23 by simp
  have d1: "tw = 1000 * a + tw mod 1000" by (simp add: a_def)
  have d2: "a = 60 * b + a mod 60" by (simp add: b_def)
  have d3: "b = 60 * h + b mod 60" by (simp add: h_def)
  have "h * 3600000 + b mod 60 * 60000 + a mod 60 * 1000 + tw mod 1000
        = 1000 * (60 * (60 * h + b mod 60) + a mod 60) + tw mod 1000"
    by (simp add: algebra_simps)
  also have "\<dots> = tw" using d1 d2 d3 by simp
  finally show "MakeTime (tw div 3600000 mod 24) (tw div 60000 mod 60) (tw div 1000 mod 60) (tw mod 1000) = tw"
    by (simp add: MakeTime_def e1 e2 hm a_def[symmetric])
  show "tw div 3600000 mod 24 \<le> 23" using hm h23 e2 by simp
qed

lemma Day_range:
  assumes "\<bar>t\<bar> \<le> maxTime"
  shows "- 100000000 \<le> Day t" "Day t \<le> 100000000"
proof -
  have "(- 8640000000000000) div 86400000 \<le> t div (86400000::int)"
    by (rule zdiv_mono1) (use assms in \<open>simp_all add: maxTime_def\<close>)
  then show "- 100000000 \<le> Day t" by (simp add: Day_def msPerDay_def)
  have "t div (86400000::int) \<le> 8640000000000000 div 86400000"
    by (rule zdiv_mono1) (use assms in \<open>simp_all add: maxTime_def\<close>)
  then show "Day t \<le> 100000000" by (simp add: Day_def msPerDay_def)
qed

lemma Year_range:
  assumes "- 100000000 \<le> d" "d \<le> 100000000"
  shows "- 999999 \<le> YearFromDay d" "YearFromDay d \<le> 999999"
proof -
  define y where "y = YearFromDay d"
  have lo: "DayFromYear y \<le> d" and hi: "d < DayFromYear (y + 1)"
    using YearFromDay_spec[of d] by (simp_all add: y_def)
  have b1: "146097 * (y - 1970) - 607 \<le> 400 * DayFromYear y"
    by (rule DayFromYear_bounds(1))
  have b2: "400 * DayFromYear (y + 1) \<le> 146097 * (y - 1969) + 593"
    using DayFromYear_bounds(2)[of "y + 1"] by simp
  have u: "146097 * (y - 1970) \<le> 40000000607" using b1 lo assms(2) by linarith
  have l: "- 40000000593 < 146097 * (y - 1969)" using b2 hi assms(1) by linarith
  show "YearFromDay d \<le> 999999"
  proof (rule ccontr)
    assume "\<not> YearFromDay d \<le> 999999"
    then have "998030 \<le> y - 1970" by (simp add: y_def)
    then have "146097 * 998030 \<le> 146097 * (y - 1970)" by (rule mult_left_mono) simp
    then show False using u by simp
  qed
  show "- 999999 \<le> YearFromDay d"
  proof (rule ccontr)
    assume "\<not> - 999999 \<le> YearFromDay d"
    then have "y - 1969 \<le> - 1001969" by (simp add: y_def)
    then have "146097 * (y - 1969) \<le> 146097 * (- 1001969)" by (rule mult_left_mono) simp
    then show False using l by simp
  qed
qed


lemma year_roundtrip:
  assumes "- 999999 \<le> y" "y \<le> 999999"
  shows "\<exists>sg w s0 yv. year_prefix (isoYear y @ rest) = Some (sg, w, s0) \<and>
           take_digits w s0 = Some (yv, rest) \<and> sg * yv = y \<and> (sg = 1 \<or> 0 < yv)"
proof -
  consider (small) "0 \<le> y" "y \<le> 9999" | (neg) "y < 0" | (big) "9999 < y" by linarith
  then show ?thesis
  proof cases
    case small
    obtain c cs where p: "pad 4 y = digit_char c # cs" and c: "0 \<le> c" "c \<le> 9"
      using pad_Suc_head[of 3 y] by (auto simp add: numeral_eq_Suc)
    have "year_prefix (isoYear y @ rest) = Some (1, 4, pad 4 y @ rest)"
      using small by (simp add: isoYear_def year_prefix_def p digit_char_not_sign[OF c])
    moreover have "take_digits 4 (pad 4 y @ rest) = Some (y, rest)"
      by (rule take_digits_pad) (use small in simp_all)
    ultimately show ?thesis by simp
  next
    case neg
    have "year_prefix (isoYear y @ rest) = Some (- 1, 6, pad 6 \<bar>y\<bar> @ rest)"
      using neg by (simp add: isoYear_def year_prefix_def)
    moreover have "take_digits 6 (pad 6 \<bar>y\<bar> @ rest) = Some (\<bar>y\<bar>, rest)"
      by (rule take_digits_pad) (use neg assms in simp_all)
    ultimately show ?thesis using neg by simp
  next
    case big
    have "year_prefix (isoYear y @ rest) = Some (1, 6, pad 6 \<bar>y\<bar> @ rest)"
      using big by (simp add: isoYear_def year_prefix_def)
    moreover have "take_digits 6 (pad 6 \<bar>y\<bar> @ rest) = Some (\<bar>y\<bar>, rest)"
      by (rule take_digits_pad) (use big assms in simp_all)
    ultimately show ?thesis using big by simp
  qed
qed

lemma parse_isoString:
  assumes "\<bar>t\<bar> \<le> maxTime"
  shows "parseIsoFull (isoString t) = Some t"
proof -
  define d where "d = Day t"
  define tw where "tw = TimeWithinDay t"
  define y where "y = YearFromDay d"
  define mo where "mo = MonthFromDay d + 1"
  define dt where "dt = DateFromDay d"
  define h where "h = tw div 3600000 mod 24"
  define mi where "mi = tw div 60000 mod 60"
  define sc where "sc = tw div 1000 mod 60"
  define ms where "ms = tw mod 1000"
  define r1 where "r1 = ''-'' @ pad 2 mo @ ''-'' @ pad 2 dt @ ''T'' @ pad 2 h @ '':'' @
      pad 2 mi @ '':'' @ pad 2 sc @ ''.'' @ pad 3 ms @ ''Z''"
  have tw: "0 \<le> tw" "tw < 86400000"
    by (simp_all add: tw_def TimeWithinDay_def msPerDay_def)
  have yr: "- 999999 \<le> y" "y \<le> 999999"
    using Year_range[OF Day_range[OF assms]] by (simp_all add: y_def d_def)
  have S: "isoString t = isoYear y @ r1"
    by (simp add: isoString_def Let_def d_def tw_def y_def mo_def dt_def h_def mi_def sc_def
        ms_def r1_def)
  obtain sg w s0 yv where yp: "year_prefix (isoYear y @ r1) = Some (sg, w, s0)"
    "take_digits w s0 = Some (yv, r1)" "sg * yv = y" "sg = 1 \<or> 0 < yv"
    using year_roundtrip[OF yr, of r1] by blast
  have f_mo: "take_digits 2 (pad 2 mo @ r) = Some (mo, r)" for r
    by (rule take_digits_pad) (use MonthFromDay_range[of d] in \<open>simp_all add: mo_def\<close>)
  have f_dt: "take_digits 2 (pad 2 dt @ r) = Some (dt, r)" for r
    by (rule take_digits_pad)
      (use DateFromDay_range(1)[of d] DateFromDay_le_31[of d] in \<open>simp_all add: dt_def\<close>)
  have f_h: "take_digits 2 (pad 2 h @ r) = Some (h, r)" for r
    by (rule take_digits_pad) (use time_fields(2)[OF tw] in \<open>simp_all add: h_def\<close>)
  have f_mi: "take_digits 2 (pad 2 mi @ r) = Some (mi, r)" for r
    by (rule take_digits_pad) (use pos_mod_bound[of 60 "tw div 60000"] in \<open>simp_all add: mi_def\<close>)
  have f_sc: "take_digits 2 (pad 2 sc @ r) = Some (sc, r)" for r
    by (rule take_digits_pad) (use pos_mod_bound[of 60 "tw div 1000"] in \<open>simp_all add: sc_def\<close>)
  have f_ms: "take_digits 3 (pad 3 ms @ r) = Some (ms, r)" for r
    by (rule take_digits_pad) (simp_all add: ms_def)
  have rng1: "1 \<le> mo" "mo \<le> 12"
    using MonthFromDay_range[of d] by (simp_all add: mo_def)
  have rng2: "1 \<le> dt" "dt \<le> DaysInMonth y (mo - 1)"
    using DateFromDay_range[of d] by (simp_all add: mo_def dt_def y_def)
  have rng3: "h \<le> 23"
    unfolding h_def by (rule time_fields(2)[OF tw])
  have rng4: "mi \<le> 59"
    unfolding mi_def using pos_mod_bound[of 60 "tw div 60000"] by linarith
  have rng5: "sc \<le> 59"
    unfolding sc_def using pos_mod_bound[of 60 "tw div 1000"] by linarith
  note rng = rng1 rng2 rng3 rng4 rng5
  have v1: "MakeDay y (mo - 1) dt = d"
    using MakeDay_roundtrip[of d] by (simp add: y_def mo_def dt_def)
  have v2: "MakeTime h mi sc ms = tw"
    unfolding h_def mi_def sc_def ms_def by (rule time_fields(1)[OF tw])
  have v3: "d * msPerDay + tw = t"
    unfolding d_def tw_def Day_def TimeWithinDay_def by simp
  have val: "MakeDate (MakeDay y (mo - 1) dt) (MakeTime h mi sc ms) = t"
    unfolding MakeDate_def v1 v2 by (rule v3)
  have e: "expect c (c # r) = Some r" for c r by simp
  have "parseAfterYear sg yv r1 = Some t"
    unfolding parseAfterYear_def r1_def
    by (simp only: append_Cons append_Nil e bind.bind_lunit f_mo f_dt f_h f_mi f_sc f_ms
        prod.case yp(3) yp(4) rng val simp_thms if_True)
  then show ?thesis
    unfolding S parseIsoFull_def by (simp add: yp(1,2))
qed

section \<open>The validator\<close>

lemma isoString_nonempty: "isoString t \<noteq> []"
  by (simp add: isoString_def Let_def)

lemma newDate_isoString: "\<bar>t\<bar> \<le> maxTime \<Longrightarrow> newDate impl (isoString t) = ValidDate t"
  by (simp add: newDate_def Date_parse_def parse_isoString TimeClip_def)

lemma newDate_range: "newDate impl s = ValidDate t \<Longrightarrow> \<bar>t\<bar> \<le> maxTime"
  by (auto simp add: newDate_def TimeClip_def split: option.splits if_splits)

lemma isValidTimestamp_JStr:
  "isValidTimestamp impl (JStr s) = (\<exists>t. newDate impl s = ValidDate t \<and> isoString t = s)"
proof (cases "newDate impl s")
  case (ValidDate t)
  then show ?thesis
    using isoString_nonempty[of t]
    by (auto simp add: isValidTimestamp_def toISOString_def Let_def)
next
  case InvalidDate
  then show ?thesis
    by (simp add: isValidTimestamp_def Let_def)
qed

lemma isValidTimestamp_canonical_set:
  "isValidTimestamp impl (JStr s) = (\<exists>t. \<bar>t\<bar> \<le> maxTime \<and> s = isoString t)"
  unfolding isValidTimestamp_JStr
  using newDate_range newDate_isoString by metis

lemma isValidTimestamp_only_strings:
  "isValidTimestamp impl v \<Longrightarrow> \<exists>s. v = JStr s"
  by (cases v) (simp_all add: isValidTimestamp_def)

lemma isValidChargerId_only_strings:
  "isValidChargerId v \<Longrightarrow> \<exists>s. v = JStr s \<and> chargerIdPattern s"
  by (cases v) (simp_all add: isValidChargerId_def split: if_splits)

lemma isValidChargerId_JStr: "isValidChargerId (JStr s) = chargerIdPattern s"
  by (auto simp add: isValidChargerId_def chargerIdPattern_def)

lemma validateEvent_strings:
  "validateEvent impl now \<lparr>ev_chargerId = JStr cid, ev_timestamp = JStr ts, ev_data = d\<rparr> =
     (if cid = [] then Inr (Invalid MissingChargerId)
      else if ts = [] then Inr (Invalid MissingTimestamp)
      else if \<not> chargerIdPattern cid then Inr (Invalid InvalidChargerIdFormat)
      else if \<not> isValidTimestamp impl (JStr ts) then Inr (Invalid InvalidTimestampFormat)
      else if isFutureTimestamp now (newDate impl ts) then Inr (Invalid FutureTimestamp)
      else Inr (IsValid \<lparr>ve_chargerId = cid, ve_timestamp = newDate impl ts, ve_data = d\<rparr>))"
  by (simp add: validateEvent_def isValidChargerId_JStr Let_def)

lemma validateEvent_accepts_canonical:
  assumes "chargerIdPattern cid" "\<bar>t\<bar> \<le> maxTime"
  shows "validateEvent impl now \<lparr>ev_chargerId = JStr cid, ev_timestamp = JStr (isoString t), ev_data = d\<rparr> =
     (if isFutureTimestamp now (ValidDate t) then Inr (Invalid FutureTimestamp)
      else Inr (IsValid \<lparr>ve_chargerId = cid, ve_timestamp = ValidDate t, ve_data = d\<rparr>))"
proof -
  have c: "cid \<noteq> []" using assms(1) by (simp add: chargerIdPattern_def)
  have v: "isValidTimestamp impl (JStr (isoString t))"
    unfolding isValidTimestamp_canonical_set using assms(2) by blast
  show ?thesis
    by (simp add: validateEvent_strings c isoString_nonempty assms(1) v
        newDate_isoString[OF assms(2)])
qed

text \<open>
  Claim C5. The timestamp-format check accepts a string exactly when \<^verbatim>\<open>new Date\<close> of it
  is a valid date whose \<^verbatim>\<open>toISOString\<close> is the string itself, character for character.
  Whatever else the engine parses, the strings accepted are exactly the canonical
  serialisations of the valid time values. A string that parses to an instant with another
  serialisation (no milliseconds, a numeric offset) fails the check, and the validator
  rejects the event with \<open>InvalidTimestampFormat\<close>.
\<close>

theorem timestamp_format_check:
  "(isValidTimestamp impl (JStr s) \<longleftrightarrow>
      (\<exists>t. newDate impl s = ValidDate t \<and> toISOString (ValidDate t) = Inr s)) \<and>
   (isValidTimestamp impl (JStr s) \<longleftrightarrow> (\<exists>t. \<bar>t\<bar> \<le> maxTime \<and> s = isoString t)) \<and>
   (newDate impl s = ValidDate t \<and> isoString t \<noteq> s \<longrightarrow> \<not> isValidTimestamp impl (JStr s)) \<and>
   (chargerIdPattern cid \<and> s \<noteq> [] \<and> newDate impl s = ValidDate t \<and> isoString t \<noteq> s \<longrightarrow>
      validateEvent impl now \<lparr>ev_chargerId = JStr cid, ev_timestamp = JStr s, ev_data = d\<rparr>
        = Inr (Invalid InvalidTimestampFormat))"
proof (intro conjI impI)
  show "isValidTimestamp impl (JStr s) \<longleftrightarrow>
      (\<exists>t. newDate impl s = ValidDate t \<and> toISOString (ValidDate t) = Inr s)"
    by (simp add: isValidTimestamp_JStr toISOString_def)
  show "isValidTimestamp impl (JStr s) \<longleftrightarrow> (\<exists>t. \<bar>t\<bar> \<le> maxTime \<and> s = isoString t)"
    by (rule isValidTimestamp_canonical_set)
  show "\<not> isValidTimestamp impl (JStr s)" if "newDate impl s = ValidDate t \<and> isoString t \<noteq> s"
    using that by (simp add: isValidTimestamp_JStr)
  show "validateEvent impl now \<lparr>ev_chargerId = JStr cid, ev_timestamp = JStr s, ev_data = d\<rparr>
        = Inr (Invalid InvalidTimestampFormat)"
    if "chargerIdPattern cid \<and> s \<noteq> [] \<and> newDate impl s = ValidDate t \<and> isoString t \<noteq> s"
  proof -
    have "cid \<noteq> []" using that by (simp add: chargerIdPattern_def)
    moreover have "\<not> isValidTimestamp impl (JStr s)"
      using that by (simp add: isValidTimestamp_JStr)
    ultimately show ?thesis using that by (simp add: validateEvent_strings)
  qed
qed

theorem timestamp_format_check_witness:
  "isValidTimestamp lenient_engine (JStr ''2024-01-15T10:30:00.000Z'') \<and>
   newDate lenient_engine ''2024-01-15T10:30:00Z'' = ValidDate 1705314600000 \<and>
   \<not> isValidTimestamp lenient_engine (JStr ''2024-01-15T10:30:00Z'') \<and>
   newDate lenient_engine ''2024-01-15T11:30:00.000+01:00'' = ValidDate 1705314600000 \<and>
   validateEvent lenient_engine 1705314600000
     \<lparr>ev_chargerId = JStr ''CHG001'', ev_timestamp = JStr ''2024-01-15T11:30:00.000+01:00'',
      ev_data = JUndefined\<rparr> = Inr (Invalid InvalidTimestampFormat)"
proof -
  have a: "\<bar>1705314600000\<bar> \<le> maxTime \<and> ''2024-01-15T10:30:00.000Z'' = isoString 1705314600000"
    by code_simp
  have b: "newDate lenient_engine ''2024-01-15T10:30:00Z'' = ValidDate 1705314600000 \<and>
           isoString 1705314600000 \<noteq> ''2024-01-15T10:30:00Z''"
    by code_simp
  have c: "chargerIdPattern ''CHG001'' \<and> ''2024-01-15T11:30:00.000+01:00'' \<noteq> [] \<and>
           newDate lenient_engine ''2024-01-15T11:30:00.000+01:00'' = ValidDate 1705314600000 \<and>
           isoString 1705314600000 \<noteq> ''2024-01-15T11:30:00.000+01:00''"
    by code_simp
  from a have "isValidTimestamp lenient_engine (JStr ''2024-01-15T10:30:00.000Z'')"
    using timestamp_format_check[of lenient_engine "''2024-01-15T10:30:00.000Z''"] by blast
  moreover from b have "\<not> isValidTimestamp lenient_engine (JStr ''2024-01-15T10:30:00Z'')"
    using timestamp_format_check[of lenient_engine "''2024-01-15T10:30:00Z''" 1705314600000]
    by blast
  moreover from c have "validateEvent lenient_engine 1705314600000
     \<lparr>ev_chargerId = JStr ''CHG001'', ev_timestamp = JStr ''2024-01-15T11:30:00.000+01:00'',
      ev_data = JUndefined\<rparr> = Inr (Invalid InvalidTimestampFormat)"
    using timestamp_format_check[of lenient_engine "''2024-01-15T11:30:00.000+01:00''"
        1705314600000 "''CHG001''" 1705314600000 JUndefined]
    by blast
  ultimately show ?thesis using b c by blast
qed

text \<open>
  Claim C6. A parsed timestamp \<open>t\<close> passes the future check exactly when
  \<open>t \<le> now + 5 minutes\<close>, in milliseconds: equality passes, anything later is rejected
  with \<open>FutureTimestamp\<close>. Time values and the sum stay below \<open>2^53\<close>, so the source's
  double arithmetic is exact.
\<close>

theorem future_timestamp_boundary:
  "(\<not> isFutureTimestamp now (ValidDate t) \<longleftrightarrow> t \<le> now + 5 * 60 * 1000) \<and>
   \<not> isFutureTimestamp now (ValidDate (now + 5 * 60 * 1000)) \<and>
   (now + 5 * 60 * 1000 < t \<longrightarrow> isFutureTimestamp now (ValidDate t)) \<and>
   (chargerIdPattern cid \<and> \<bar>t\<bar> \<le> maxTime \<longrightarrow>
      validateEvent impl now
        \<lparr>ev_chargerId = JStr cid, ev_timestamp = JStr (isoString t), ev_data = d\<rparr> =
      (if t \<le> now + 5 * 60 * 1000
       then Inr (IsValid \<lparr>ve_chargerId = cid, ve_timestamp = ValidDate t, ve_data = d\<rparr>)
       else Inr (Invalid FutureTimestamp))) \<and>
   (\<bar>now\<bar> \<le> maxTime \<and> \<bar>t\<bar> \<le> maxTime \<longrightarrow> \<bar>now + clockSkewMs\<bar> < 2 ^ 53 \<and> \<bar>t\<bar> < 2 ^ 53)"
proof (intro conjI impI)
  show "\<not> isFutureTimestamp now (ValidDate t) \<longleftrightarrow> t \<le> now + 5 * 60 * 1000"
    by (auto simp add: isFutureTimestamp_def clockSkewMs_def)
  show "\<not> isFutureTimestamp now (ValidDate (now + 5 * 60 * 1000))"
    by (simp add: isFutureTimestamp_def clockSkewMs_def)
  show "isFutureTimestamp now (ValidDate t)" if "now + 5 * 60 * 1000 < t"
    using that by (simp add: isFutureTimestamp_def clockSkewMs_def)
  show "validateEvent impl now
        \<lparr>ev_chargerId = JStr cid, ev_timestamp = JStr (isoString t), ev_data = d\<rparr> =
      (if t \<le> now + 5 * 60 * 1000
       then Inr (IsValid \<lparr>ve_chargerId = cid, ve_timestamp = ValidDate t, ve_data = d\<rparr>)
       else Inr (Invalid FutureTimestamp))" if "chargerIdPattern cid \<and> \<bar>t\<bar> \<le> maxTime"
    using that validateEvent_accepts_canonical[of cid t impl now d]
    by (auto simp add: isFutureTimestamp_def clockSkewMs_def)
  show "\<bar>now + clockSkewMs\<bar> < 2 ^ 53" if "\<bar>now\<bar> \<le> maxTime \<and> \<bar>t\<bar> \<le> maxTime"
    using that by (simp add: maxTime_def clockSkewMs_def, linarith)
  show "\<bar>t\<bar> < 2 ^ 53" if "\<bar>now\<bar> \<le> maxTime \<and> \<bar>t\<bar> \<le> maxTime"
    using that by (simp add: maxTime_def)
qed

theorem future_timestamp_boundary_witness:
  "validateEvent strict_engine 1705314300000
     \<lparr>ev_chargerId = JStr ''CHG001'', ev_timestamp = JStr ''2024-01-15T10:30:00.000Z'',
      ev_data = JUndefined\<rparr> =
     Inr (IsValid \<lparr>ve_chargerId = ''CHG001'', ve_timestamp = ValidDate 1705314600000,
                   ve_data = JUndefined\<rparr>) \<and>
   validateEvent strict_engine 1705314299999
     \<lparr>ev_chargerId = JStr ''CHG001'', ev_timestamp = JStr ''2024-01-15T10:30:00.000Z'',
      ev_data = JUndefined\<rparr> = Inr (Invalid FutureTimestamp)"
proof -
  have h: "chargerIdPattern ''CHG001'' \<and> \<bar>1705314600000\<bar> \<le> maxTime"
    by code_simp
  have i: "isoString 1705314600000 = ''2024-01-15T10:30:00.000Z''"
    by code_simp
  show ?thesis
    using future_timestamp_boundary[of 1705314300000 1705314600000 "''CHG001''" strict_engine JUndefined]
      future_timestamp_boundary[of 1705314299999 1705314600000 "''CHG001''" strict_engine JUndefined]
      h unfolding i by simp
qed

lemma idChar_in_id_class_all: "\<forall>c. idChar c = in_id_class c"
  by code_simp

lemma truthy_present_nonempty: "truthy v = present_nonempty v"
proof (cases v)
  case (JNum n)
  then show ?thesis by (cases n) (simp_all add: present_nonempty_def)
qed (auto simp add: present_nonempty_def)

lemma isValidChargerId_matches: "isValidChargerId v = matches_id_pattern v"
proof -
  have "list_all idChar s = list_all in_id_class s" for s
    using idChar_in_id_class_all by (simp add: list_all_iff)
  then show ?thesis
    by (cases v) (auto simp add: isValidChargerId_def matches_id_pattern_def chargerIdPattern_def)
qed

lemma canonical_instant_iff:
  "canonical_instant (JStr s) = Some t \<longleftrightarrow> \<bar>t\<bar> \<le> maxTime \<and> s = isoString t"
  using parse_isoString[of t]
  by (auto simp add: canonical_instant_def split: option.splits)

lemma canonical_instant_nonstring: "typeof v \<noteq> ''string'' \<Longrightarrow> canonical_instant v = None"
  by (cases v) (simp_all add: canonical_instant_def)

lemma isValidTimestamp_canonical_instant:
  "isValidTimestamp impl v = (canonical_instant v \<noteq> None)"
proof (cases v)
  case (JStr s)
  have "(\<exists>t. \<bar>t\<bar> \<le> maxTime \<and> s = isoString t) = (\<exists>t. canonical_instant (JStr s) = Some t)"
    by (simp add: canonical_instant_iff)
  then show ?thesis
    using JStr by (simp add: isValidTimestamp_canonical_set)
qed (simp_all add: isValidTimestamp_def canonical_instant_def)

text \<open>
  Claim C1. For every raw event, whatever its fields hold, the validator's answer is the
  one documented: the reason of the first failing check in the order identifier present
  and non-empty (\<open>MissingChargerId\<close>, the specification's MissingDeviceId), timestamp
  present and non-empty (\<open>MissingTimestamp\<close>), identifier matches the pattern
  (\<open>InvalidChargerIdFormat\<close>, the specification's InvalidDeviceIdFormat), timestamp
  canonical (\<open>InvalidTimestampFormat\<close>), timestamp not in the future
  (\<open>FutureTimestamp\<close>), and otherwise the validated event with the parsed instant and the
  payload untouched. There is one exception, where the source departs from the claim: when
  the answer is one of the two format rejections and the offending value cannot be
  converted to a string, building the message throws a TypeError and no reason is
  returned.
\<close>

theorem validateEvent_first_failing_check:
  "validateEvent impl now event =
     (if documented_validate now event = Invalid InvalidChargerIdFormat \<and>
         ToString_throws (ev_chargerId event) then Inl TypeError
      else if documented_validate now event = Invalid InvalidTimestampFormat \<and>
         ToString_throws (ev_timestamp event) then Inl TypeError
      else Inr (documented_validate now event))"
proof -
  consider (c1) "\<not> present_nonempty (ev_chargerId event)"
    | (c2) "present_nonempty (ev_chargerId event)" "\<not> present_nonempty (ev_timestamp event)"
    | (c3) "present_nonempty (ev_chargerId event)" "present_nonempty (ev_timestamp event)"
        "\<not> matches_id_pattern (ev_chargerId event)"
    | (c4) "present_nonempty (ev_chargerId event)" "present_nonempty (ev_timestamp event)"
        "matches_id_pattern (ev_chargerId event)" "canonical_instant (ev_timestamp event) = None"
    | (c5) t where "present_nonempty (ev_chargerId event)" "present_nonempty (ev_timestamp event)"
        "matches_id_pattern (ev_chargerId event)" "canonical_instant (ev_timestamp event) = Some t"
    by (cases "canonical_instant (ev_timestamp event)") auto
  then show ?thesis
  proof cases
    case c1
    then show ?thesis
      by (simp add: validateEvent_def documented_validate_def documented_checks_def
          truthy_present_nonempty)
  next
    case c2
    then show ?thesis
      by (simp add: validateEvent_def documented_validate_def documented_checks_def
          truthy_present_nonempty)
  next
    case c3
    then show ?thesis
      by (simp add: validateEvent_def documented_validate_def documented_checks_def
          truthy_present_nonempty isValidChargerId_matches)
  next
    case c4
    then show ?thesis
      by (simp add: validateEvent_def documented_validate_def documented_checks_def
          truthy_present_nonempty isValidChargerId_matches isValidTimestamp_canonical_instant)
  next
    case c5
    obtain cid where cid: "ev_chargerId event = JStr cid"
      using c5(3) by (cases "ev_chargerId event") (simp_all add: matches_id_pattern_def)
    obtain ts where ts: "ev_timestamp event = JStr ts"
      using c5(4) by (cases "ev_timestamp event") (simp_all add: canonical_instant_def)
    have t: "\<bar>t\<bar> \<le> maxTime" "ts = isoString t"
      using c5(4) canonical_instant_iff[of ts t] by (simp_all add: ts)
    have nd: "newDate impl ts = ValidDate t"
      using newDate_isoString[OF t(1), of impl] by (simp add: t(2))
    show ?thesis
      using c5
      by (simp add: validateEvent_def documented_validate_def documented_checks_def
          truthy_present_nonempty isValidChargerId_matches isValidTimestamp_canonical_instant
          cid ts nd isFutureTimestamp_def clockSkewMs_def Let_def)
  qed
qed

theorem validateEvent_first_failing_check_witness:
  "validateEvent lenient_engine 1705314300000
     \<lparr>ev_chargerId = JUndefined, ev_timestamp = JStr [], ev_data = JUndefined\<rparr>
     = Inr (Invalid MissingChargerId) \<and>
   validateEvent lenient_engine 1705314300000
     \<lparr>ev_chargerId = JStr ''bad id!'', ev_timestamp = JUndefined, ev_data = JUndefined\<rparr>
     = Inr (Invalid MissingTimestamp) \<and>
   validateEvent lenient_engine 1705314300000
     \<lparr>ev_chargerId = JStr ''bad id!'', ev_timestamp = JStr ''2024-01-15T10:30:00Z'',
      ev_data = JUndefined\<rparr> = Inr (Invalid InvalidChargerIdFormat) \<and>
   validateEvent lenient_engine 1705314299999
     \<lparr>ev_chargerId = JStr ''bad id!'', ev_timestamp = JStr ''2024-01-15T10:30:00.000Z'',
      ev_data = JUndefined\<rparr> = Inr (Invalid InvalidChargerIdFormat) \<and>
   validateEvent lenient_engine 1705314300000
     \<lparr>ev_chargerId = JStr ''CHG001'', ev_timestamp = JStr ''2024-01-15T10:30:00Z'',
      ev_data = JUndefined\<rparr> = Inr (Invalid InvalidTimestampFormat) \<and>
   validateEvent lenient_engine 1705314299999
     \<lparr>ev_chargerId = JStr ''CHG001'', ev_timestamp = JStr ''2024-01-15T10:30:00.000Z'',
      ev_data = JUndefined\<rparr> = Inr (Invalid FutureTimestamp) \<and>
   validateEvent lenient_engine 1705314300000
     \<lparr>ev_chargerId = JStr ''CHG001'', ev_timestamp = JStr ''2024-01-15T10:30:00.000Z'',
      ev_data = JObj [(''voltage'', JNum (Finite 240))]\<rparr> =
     Inr (IsValid \<lparr>ve_chargerId = ''CHG001'', ve_timestamp = ValidDate 1705314600000,
                   ve_data = JObj [(''voltage'', JNum (Finite 240))]\<rparr>) \<and>
   validateEvent lenient_engine 1705314300000
     \<lparr>ev_chargerId = JObj [(''toString'', JNum (Finite 0))],
      ev_timestamp = JStr ''2024-01-15T10:30:00.000Z'', ev_data = JUndefined\<rparr> = Inl TypeError \<and>
   validateEvent lenient_engine 1705314300000
     \<lparr>ev_chargerId = JStr ''CHG001'', ev_timestamp = JArr [JObj [(''toString'', JNull)]],
      ev_data = JUndefined\<rparr> = Inl TypeError"
proof -
  have d1: "documented_validate 1705314300000
     \<lparr>ev_chargerId = JUndefined, ev_timestamp = JStr [], ev_data = JUndefined\<rparr>
     = Invalid MissingChargerId"
    by code_simp
  have d2: "documented_validate 1705314300000
     \<lparr>ev_chargerId = JStr ''bad id!'', ev_timestamp = JUndefined, ev_data = JUndefined\<rparr>
     = Invalid MissingTimestamp"
    by code_simp
  have d3: "documented_validate 1705314300000
     \<lparr>ev_chargerId = JStr ''bad id!'', ev_timestamp = JStr ''2024-01-15T10:30:00Z'',
      ev_data = JUndefined\<rparr> = Invalid InvalidChargerIdFormat"
    by code_simp
  have d4: "documented_validate 1705314299999
     \<lparr>ev_chargerId = JStr ''bad id!'', ev_timestamp = JStr ''2024-01-15T10:30:00.000Z'',
      ev_data = JUndefined\<rparr> = Invalid InvalidChargerIdFormat"
    by code_simp
  have d5: "documented_validate 1705314300000
     \<lparr>ev_chargerId = JStr ''CHG001'', ev_timestamp = JStr ''2024-01-15T10:30:00Z'',
      ev_data = JUndefined\<rparr> = Invalid InvalidTimestampFormat"
    by code_simp
  have d6: "documented_validate 1705314299999
     \<lparr>ev_chargerId = JStr ''CHG001'', ev_timestamp = JStr ''2024-01-15T10:30:00.000Z'',
      ev_data = JUndefined\<rparr> = Invalid FutureTimestamp"
    by code_simp
  have d7: "documented_validate 1705314300000
     \<lparr>ev_chargerId = JStr ''CHG001'', ev_timestamp = JStr ''2024-01-15T10:30:00.000Z'',
      ev_data = JObj [(''voltage'', JNum (Finite 240))]\<rparr> =
     IsValid \<lparr>ve_chargerId = ''CHG001'', ve_timestamp = ValidDate 1705314600000,
              ve_data = JObj [(''voltage'', JNum (Finite 240))]\<rparr>"
    by code_simp
  have d8: "documented_validate 1705314300000
     \<lparr>ev_chargerId = JObj [(''toString'', JNum (Finite 0))],
      ev_timestamp = JStr ''2024-01-15T10:30:00.000Z'', ev_data = JUndefined\<rparr>
     = Invalid InvalidChargerIdFormat"
    by code_simp
  have d9: "documented_validate 1705314300000
     \<lparr>ev_chargerId = JStr ''CHG001'', ev_timestamp = JArr [JObj [(''toString'', JNull)]],
      ev_data = JUndefined\<rparr> = Invalid InvalidTimestampFormat"
    by code_simp
  show ?thesis
    unfolding validateEvent_first_failing_check[of lenient_engine] d1 d2 d3 d4 d5 d6 d7 d8 d9
    by simp
qed



section \<open>The write path\<close>

text \<open>
  Claim C8. The record enrichment returns carries as its identifier the value the UUID
  generator returned, whatever the validated event is (two different events enriched with
  the same generator value get the same identifier, so nothing of it comes from the
  input); \<open>receivedAt\<close> and \<open>processedAt\<close> are both the one instant read at the start,
  and so are equal. That the generator's values are random and never repeat is a property
  of the platform, outside this development.
\<close>

theorem enrichEvent_fresh_id_single_now:
  "pe_eventId (enrichEvent uuid now validatedEvent) = uuid \<and>
   pe_eventId (enrichEvent uuid now validatedEvent) = pe_eventId (enrichEvent uuid now other) \<and>
   pe_receivedAt (enrichEvent uuid now validatedEvent) = ValidDate now \<and>
   pe_processedAt (enrichEvent uuid now validatedEvent) = ValidDate now \<and>
   pe_receivedAt (enrichEvent uuid now validatedEvent) =
     pe_processedAt (enrichEvent uuid now validatedEvent)"
  by (simp add: enrichEvent_def)

theorem enrichEvent_fresh_id_single_now_witness:
  "pe_eventId (enrichEvent ''123e4567-e89b-12d3-a456-426614174000'' 1705314600123
     \<lparr>ve_chargerId = ''CHG001'', ve_timestamp = ValidDate 1705314600000, ve_data = JUndefined\<rparr>)
     = ''123e4567-e89b-12d3-a456-426614174000'' \<and>
   pe_receivedAt (enrichEvent ''123e4567-e89b-12d3-a456-426614174000'' 1705314600123
     \<lparr>ve_chargerId = ''CHG001'', ve_timestamp = ValidDate 1705314600000, ve_data = JUndefined\<rparr>)
     = ValidDate 1705314600123 \<and>
   pe_processedAt (enrichEvent ''123e4567-e89b-12d3-a456-426614174000'' 1705314600123
     \<lparr>ve_chargerId = ''CHG001'', ve_timestamp = ValidDate 1705314600000, ve_data = JUndefined\<rparr>)
     = ValidDate 1705314600123"
  using enrichEvent_fresh_id_single_now[of "''123e4567-e89b-12d3-a456-426614174000''"
      1705314600123
      "\<lparr>ve_chargerId = ''CHG001'', ve_timestamp = ValidDate 1705314600000, ve_data = JUndefined\<rparr>"]
  by simp

lemma toStoredEvent_valid:
  assumes "pe_timestamp pe = ValidDate t"
    "pe_receivedAt pe = ValidDate r" "pe_processedAt pe = ValidDate q"
  shows "toStoredEvent nowMs pe =
     Inr \<lparr>se_eventId = pe_eventId pe, se_chargerId = pe_chargerId pe,
          se_timestamp = isoString t, se_data = pe_data pe,
          se_receivedAt = isoString r, se_processedAt = isoString q,
          se_ttl = nowMs div 1000 + 90 * 24 * 60 * 60\<rparr>"
  using assms by (simp add: toStoredEvent_def toISOString_def TTL_DAYS_def)

lemma query_handler_found:
  assumes "pathChargerId event = Some cid" "cid \<noteq> []"
    "q_dynamoQuery env cid = Inr (Some (WellFormed se # rest))"
  shows "snd (query_handler env event) =
     Returned \<lparr>statusCode = 200,
               body = QueryBody \<lparr>qr_chargerId = se_chargerId se,
                                  qr_timestamp = se_timestamp se,
                                  qr_data = se_data se,
                                  qr_receivedAt = se_receivedAt se,
                                  qr_processedAt = se_processedAt se\<rparr>\<rparr>"
  using assms by (simp add: query_handler_def query_try_def Let_def)

text \<open>
  Claim C7. For a validated event whose timestamp is an instant \<open>t\<close>, enrichment followed
  by conversion to the stored form succeeds; the stored record has the event's identifier
  of the charger and its payload unchanged, its timestamp is the serialisation of \<open>t\<close>, and
  reading that string back as a date gives \<open>t\<close> again; the ttl is the write time in whole
  seconds plus \<open>90 * 24 * 60 * 60\<close>. The query handler, reading the record back, answers
  with the same charger identifier, timestamp string and payload.
\<close>

theorem enrich_store_roundtrip:
  assumes "ve_timestamp validatedEvent = ValidDate t" "\<bar>t\<bar> \<le> maxTime"
  shows "\<exists>se. toStoredEvent nowMs (enrichEvent uuid now validatedEvent) = Inr se \<and>
           se_chargerId se = ve_chargerId validatedEvent \<and>
           se_data se = ve_data validatedEvent \<and>
           se_timestamp se = isoString t \<and>
           newDate impl (se_timestamp se) = ve_timestamp validatedEvent \<and>
           se_ttl se = nowMs div 1000 + 90 * 24 * 60 * 60 \<and>
           (pathChargerId request = Some (ve_chargerId validatedEvent) \<and>
            ve_chargerId validatedEvent \<noteq> [] \<and>
            q_dynamoQuery env (ve_chargerId validatedEvent) = Inr (Some [WellFormed se]) \<longrightarrow>
            snd (query_handler env request) =
              Returned \<lparr>statusCode = 200,
                        body = QueryBody \<lparr>qr_chargerId = ve_chargerId validatedEvent,
                                           qr_timestamp = isoString t,
                                           qr_data = ve_data validatedEvent,
                                           qr_receivedAt = isoString now,
                                           qr_processedAt = isoString now\<rparr>\<rparr>)"
proof -
  define se where "se =
     \<lparr>se_eventId = uuid, se_chargerId = ve_chargerId validatedEvent,
      se_timestamp = isoString t, se_data = ve_data validatedEvent,
      se_receivedAt = isoString now, se_processedAt = isoString now,
      se_ttl = nowMs div 1000 + 90 * 24 * 60 * 60\<rparr>"
  have s: "toStoredEvent nowMs (enrichEvent uuid now validatedEvent) = Inr se"
    using toStoredEvent_valid[of "enrichEvent uuid now validatedEvent" t now now nowMs] assms(1)
    by (simp add: enrichEvent_def se_def)
  have p: "newDate impl (se_timestamp se) = ve_timestamp validatedEvent"
    using newDate_isoString[OF assms(2), of impl] assms(1) by (simp add: se_def)
  have q: "snd (query_handler env request) =
              Returned \<lparr>statusCode = 200,
                        body = QueryBody \<lparr>qr_chargerId = ve_chargerId validatedEvent,
                                           qr_timestamp = isoString t,
                                           qr_data = ve_data validatedEvent,
                                           qr_receivedAt = isoString now,
                                           qr_processedAt = isoString now\<rparr>\<rparr>"
    if "pathChargerId request = Some (ve_chargerId validatedEvent) \<and>
        ve_chargerId validatedEvent \<noteq> [] \<and>
        q_dynamoQuery env (ve_chargerId validatedEvent) = Inr (Some [WellFormed se])"
    using query_handler_found[of request "ve_chargerId validatedEvent" env se "[]"] that
    by (simp add: se_def)
  show ?thesis
    using s p q by (intro exI[of _ se]) (simp add: se_def)
qed

theorem enrich_store_roundtrip_witness:
  "\<bar>1705314600000\<bar> \<le> maxTime \<and>
   toStoredEvent 1705314600456
     (enrichEvent ''123e4567-e89b-12d3-a456-426614174000'' 1705314600123
        \<lparr>ve_chargerId = ''CHG001'', ve_timestamp = ValidDate 1705314600000,
         ve_data = JObj [(''voltage'', JNum (Finite (481 / 2)))]\<rparr>) =
     Inr \<lparr>se_eventId = ''123e4567-e89b-12d3-a456-426614174000'', se_chargerId = ''CHG001'',
          se_timestamp = ''2024-01-15T10:30:00.000Z'',
          se_data = JObj [(''voltage'', JNum (Finite (481 / 2)))],
          se_receivedAt = ''2024-01-15T10:30:00.123Z'',
          se_processedAt = ''2024-01-15T10:30:00.123Z'',
          se_ttl = 1713090600\<rparr> \<and>
   newDate strict_engine ''2024-01-15T10:30:00.000Z'' = ValidDate 1705314600000"
proof -
  have h: "\<bar>1705314600000\<bar> \<le> maxTime" by (simp add: maxTime_def)
  have v: "ve_timestamp \<lparr>ve_chargerId = ''CHG001'', ve_timestamp = ValidDate 1705314600000,
         ve_data = JObj [(''voltage'', JNum (Finite (481 / 2)))]\<rparr> = ValidDate 1705314600000"
    by simp
  have i: "isoString 1705314600000 = ''2024-01-15T10:30:00.000Z''" by code_simp
  have j: "isoString 1705314600123 = ''2024-01-15T10:30:00.123Z''" by code_simp
  have full: "toStoredEvent 1705314600456
     (enrichEvent ''123e4567-e89b-12d3-a456-426614174000'' 1705314600123
        \<lparr>ve_chargerId = ''CHG001'', ve_timestamp = ValidDate 1705314600000,
         ve_data = JObj [(''voltage'', JNum (Finite (481 / 2)))]\<rparr>) =
     Inr \<lparr>se_eventId = ''123e4567-e89b-12d3-a456-426614174000'', se_chargerId = ''CHG001'',
          se_timestamp = ''2024-01-15T10:30:00.000Z'',
          se_data = JObj [(''voltage'', JNum (Finite (481 / 2)))],
          se_receivedAt = ''2024-01-15T10:30:00.123Z'',
          se_processedAt = ''2024-01-15T10:30:00.123Z'',
          se_ttl = 1713090600\<rparr>"
    by (simp add: toStoredEvent_def enrichEvent_def toISOString_def TTL_DAYS_def i j)
  obtain se where se: "toStoredEvent 1705314600456
     (enrichEvent ''123e4567-e89b-12d3-a456-426614174000'' 1705314600123
        \<lparr>ve_chargerId = ''CHG001'', ve_timestamp = ValidDate 1705314600000,
         ve_data = JObj [(''voltage'', JNum (Finite (481 / 2)))]\<rparr>) = Inr se"
    and nd: "newDate strict_engine (se_timestamp se) =
      ve_timestamp \<lparr>ve_chargerId = ''CHG001'', ve_timestamp = ValidDate 1705314600000,
         ve_data = JObj [(''voltage'', JNum (Finite (481 / 2)))]\<rparr>"
    using enrich_store_roundtrip[OF v h, of 1705314600456
        "''123e4567-e89b-12d3-a456-426614174000''" 1705314600123 strict_engine
        "\<lparr>pathParameters = None\<rparr>"
        "\<lparr>q_startTime = 0, q_afterQuery = 0, q_catchTime = 0, q_cloudwatch = always_ok,
          q_dynamoQuery = empty_table\<rparr>"]
    by blast
  have "Inr se = (Inr \<lparr>se_eventId = ''123e4567-e89b-12d3-a456-426614174000'',
          se_chargerId = ''CHG001'', se_timestamp = ''2024-01-15T10:30:00.000Z'',
          se_data = JObj [(''voltage'', JNum (Finite (481 / 2)))],
          se_receivedAt = ''2024-01-15T10:30:00.123Z'',
          se_processedAt = ''2024-01-15T10:30:00.123Z'',
          se_ttl = 1713090600\<rparr> :: error + StoredEvent)"
    using se full by (rule trans[OF sym])
  then have "se_timestamp se = ''2024-01-15T10:30:00.000Z''"
    by auto
  then show ?thesis
    using h full nd by simp
qed

section \<open>The read path\<close>

lemma emits_publishQueryMetrics: "emits ''QueryDuration'' (publishQueryMetrics cw d)"
  by (simp add: emits_def publishQueryMetrics_def Let_def)

lemma emits_append: "emits n (xs @ ys) = (emits n xs \<or> emits n ys)"
  by (simp add: emits_def)

lemma emits_Cons: "emits n (x # xs) =
    ((case x of PutMetricData ms \<Rightarrow> list_ex (\<lambda>m. MetricName m = n) ms | _ \<Rightarrow> False) \<or> emits n xs)"
  by (simp add: emits_def)

lemma query_handler_returns: "\<exists>fx r. query_handler env event = (fx, Returned r)"
  by (cases "query_try env event") (auto simp add: query_handler_def split: sum.splits)

lemma query_try_missing:
  assumes "pathChargerId event = None \<or> pathChargerId event = Some []"
  shows "query_try env event = ([], Inr missingParameter)"
  using assms by (auto simp add: query_try_def)

lemma query_try_status:
  assumes "query_try env event = (fx, Inr r)"
  shows "statusCode r = 200 \<or> statusCode r = 400 \<or> statusCode r = 404"
  using assms
  by (auto simp add: query_try_def Let_def missingParameter_def notFound_def
      split: option.splits if_splits sum.splits list.splits db_item.splits)

text \<open>
  Claim C2. A request without a charger identifier, or with an empty one, is answered 400
  (\<open>missingParameter\<close>), which is not the 404 answer; a charger with no stored record is
  answered 404 (\<open>notFound\<close>); a store failure is answered 500 with the fixed body
  \<open>internalError\<close>, the same for every store error, so nothing of the error is in it; and
  whatever the request and the services do, the handler returns a response with status
  200, 400, 404 or 500 and never throws.
\<close>

theorem getLatest_outcomes:
  "(pathChargerId event = None \<or> pathChargerId event = Some [] \<longrightarrow>
      snd (query_handler env event) = Returned missingParameter) \<and>
   statusCode missingParameter = 400 \<and> missingParameter \<noteq> notFound \<and>
   (pathChargerId event = Some cid \<and> cid \<noteq> [] \<and>
    (q_dynamoQuery env cid = Inr None \<or> q_dynamoQuery env cid = Inr (Some [])) \<longrightarrow>
      snd (query_handler env event) = Returned notFound) \<and>
   statusCode notFound = 404 \<and>
   (pathChargerId event = Some cid \<and> cid \<noteq> [] \<and> q_dynamoQuery env cid = Inl e \<longrightarrow>
      snd (query_handler env event) = Returned internalError) \<and>
   statusCode internalError = 500 \<and>
   body internalError = StatusBody ''error'' ''Internal server error'' \<and>
   (\<exists>r. snd (query_handler env event) = Returned r \<and>
        (statusCode r = 200 \<or> statusCode r = 400 \<or> statusCode r = 404 \<or> statusCode r = 500))"
proof (intro conjI impI)
  show "snd (query_handler env event) = Returned missingParameter"
    if "pathChargerId event = None \<or> pathChargerId event = Some []"
    using query_try_missing[OF that, of env] by (simp add: query_handler_def)
  show "statusCode missingParameter = 400" by (simp add: missingParameter_def)
  show "missingParameter \<noteq> notFound" by (simp add: missingParameter_def notFound_def)
  show "snd (query_handler env event) = Returned notFound"
    if "pathChargerId event = Some cid \<and> cid \<noteq> [] \<and>
        (q_dynamoQuery env cid = Inr None \<or> q_dynamoQuery env cid = Inr (Some []))"
    using that by (auto simp add: query_handler_def query_try_def Let_def)
  show "statusCode notFound = 404" by (simp add: notFound_def)
  show "snd (query_handler env event) = Returned internalError"
    if "pathChargerId event = Some cid \<and> cid \<noteq> [] \<and> q_dynamoQuery env cid = Inl e"
    using that by (simp add: query_handler_def query_try_def)
  show "statusCode internalError = 500" by (simp add: internalError_def)
  show "body internalError = StatusBody ''error'' ''Internal server error''"
    by (simp add: internalError_def)
  show "\<exists>r. snd (query_handler env event) = Returned r \<and>
        (statusCode r = 200 \<or> statusCode r = 400 \<or> statusCode r = 404 \<or> statusCode r = 500)"
  proof (cases "query_try env event")
    case (Pair fx res)
    show ?thesis
    proof (cases res)
      case (Inl err)
      then show ?thesis using Pair by (simp add: query_handler_def internalError_def)
    next
      case (Inr r)
      then show ?thesis
        using Pair query_try_status[of env event fx r] by (auto simp add: query_handler_def)
    qed
  qed
qed

theorem getLatest_outcomes_witness:
  "snd (query_handler
     \<lparr>q_startTime = 0, q_afterQuery = 7, q_catchTime = 9, q_cloudwatch = failing_service,
      q_dynamoQuery = failing_table\<rparr> \<lparr>pathParameters = None\<rparr>) = Returned missingParameter \<and>
   snd (query_handler
     \<lparr>q_startTime = 0, q_afterQuery = 7, q_catchTime = 9, q_cloudwatch = failing_service,
      q_dynamoQuery = empty_table\<rparr> \<lparr>pathParameters = Some [''chargerId'' \<mapsto> ''CHG001'']\<rparr>)
     = Returned notFound \<and>
   snd (query_handler
     \<lparr>q_startTime = 0, q_afterQuery = 7, q_catchTime = 9, q_cloudwatch = failing_service,
      q_dynamoQuery = failing_table\<rparr> \<lparr>pathParameters = Some [''chargerId'' \<mapsto> ''CHG001'']\<rparr>)
     = Returned internalError"
proof -
  have a: "pathChargerId \<lparr>pathParameters = None\<rparr> = None"
    by (simp add: pathChargerId_def)
  have b: "pathChargerId \<lparr>pathParameters = Some [''chargerId'' \<mapsto> ''CHG001'']\<rparr> = Some ''CHG001''"
    by (simp add: pathChargerId_def)
  have c: "''CHG001'' \<noteq> []" by simp
  have d: "q_dynamoQuery \<lparr>q_startTime = 0, q_afterQuery = 7, q_catchTime = 9,
      q_cloudwatch = failing_service, q_dynamoQuery = empty_table\<rparr> ''CHG001'' = Inr (Some [])"
    by (simp add: empty_table_def)
  have e: "q_dynamoQuery \<lparr>q_startTime = 0, q_afterQuery = 7, q_catchTime = 9,
      q_cloudwatch = failing_service, q_dynamoQuery = failing_table\<rparr> ''CHG001''
      = Inl (ServiceError ''ProvisionedThroughputExceededException'')"
    by (simp add: failing_table_def)
  show ?thesis
    using getLatest_outcomes[of "\<lparr>pathParameters = None\<rparr>"
        "\<lparr>q_startTime = 0, q_afterQuery = 7, q_catchTime = 9, q_cloudwatch = failing_service,
          q_dynamoQuery = failing_table\<rparr>"] a
      getLatest_outcomes[of "\<lparr>pathParameters = Some [''chargerId'' \<mapsto> ''CHG001'']\<rparr>"
        "\<lparr>q_startTime = 0, q_afterQuery = 7, q_catchTime = 9, q_cloudwatch = failing_service,
          q_dynamoQuery = empty_table\<rparr>" "''CHG001''"] b c d
      getLatest_outcomes[of "\<lparr>pathParameters = Some [''chargerId'' \<mapsto> ''CHG001'']\<rparr>"
        "\<lparr>q_startTime = 0, q_afterQuery = 7, q_catchTime = 9, q_cloudwatch = failing_service,
          q_dynamoQuery = failing_table\<rparr>" "''CHG001''"
        "ServiceError ''ProvisionedThroughputExceededException''"] e
    by blast
qed

text \<open>
  Claim C4 says that every invocation of the query service emits a query-duration
  measurement, the 400 outcome included. The handler returns its 400 answer before the
  first call that publishes the measurement: with no charger identifier the trace is empty.
  On every other path (404, 200 and both ways to 500) the measurement is emitted.
\<close>

theorem query_duration_missing_on_400:
  "(pathChargerId event = None \<or> pathChargerId event = Some [] \<longrightarrow>
      query_handler env event = ([], Returned missingParameter) \<and>
      \<not> emits ''QueryDuration'' (fst (query_handler env event))) \<and>
   (pathChargerId event = Some cid \<and> cid \<noteq> [] \<longrightarrow>
      emits ''QueryDuration'' (fst (query_handler env event)))"
proof (intro conjI impI)
  assume m: "pathChargerId event = None \<or> pathChargerId event = Some []"
  show "query_handler env event = ([], Returned missingParameter)"
    using query_try_missing[OF m, of env] by (simp add: query_handler_def)
  then show "\<not> emits ''QueryDuration'' (fst (query_handler env event))"
    by (simp add: emits_def)
next
  assume p: "pathChargerId event = Some cid \<and> cid \<noteq> []"
  show "emits ''QueryDuration'' (fst (query_handler env event))"
  proof (cases "q_dynamoQuery env cid")
    case (Inl err)
    then show ?thesis
      using p
      by (simp add: query_handler_def query_try_def emits_append emits_Cons
          emits_publishQueryMetrics)
  next
    case (Inr items)
    then show ?thesis
      using p
      by (auto simp add: query_handler_def query_try_def Let_def emits_append emits_Cons
          emits_publishQueryMetrics split: option.splits list.splits db_item.splits)
  qed
qed

theorem query_duration_missing_on_400_witness:
  "query_handler
     \<lparr>q_startTime = 0, q_afterQuery = 7, q_catchTime = 9, q_cloudwatch = always_ok,
      q_dynamoQuery = empty_table\<rparr> \<lparr>pathParameters = None\<rparr> = ([], Returned missingParameter) \<and>
   \<not> emits ''QueryDuration'' (fst (query_handler
     \<lparr>q_startTime = 0, q_afterQuery = 7, q_catchTime = 9, q_cloudwatch = always_ok,
      q_dynamoQuery = empty_table\<rparr> \<lparr>pathParameters = None\<rparr>)) \<and>
   emits ''QueryDuration'' (fst (query_handler
     \<lparr>q_startTime = 0, q_afterQuery = 7, q_catchTime = 9, q_cloudwatch = always_ok,
      q_dynamoQuery = empty_table\<rparr> \<lparr>pathParameters = Some [''chargerId'' \<mapsto> ''CHG001'']\<rparr>))"
proof -
  have a: "pathChargerId \<lparr>pathParameters = None\<rparr> = None"
    by (simp add: pathChargerId_def)
  have b: "pathChargerId \<lparr>pathParameters = Some [''chargerId'' \<mapsto> ''CHG001'']\<rparr> = Some ''CHG001''
      \<and> ''CHG001'' \<noteq> []"
    by (simp add: pathChargerId_def)
  show ?thesis
    using query_duration_missing_on_400[of "\<lparr>pathParameters = None\<rparr>"
        "\<lparr>q_startTime = 0, q_afterQuery = 7, q_catchTime = 9, q_cloudwatch = always_ok,
          q_dynamoQuery = empty_table\<rparr>"] a
      query_duration_missing_on_400[of "\<lparr>pathParameters = Some [''chargerId'' \<mapsto> ''CHG001'']\<rparr>"
        "\<lparr>q_startTime = 0, q_afterQuery = 7, q_catchTime = 9, q_cloudwatch = always_ok,
          q_dynamoQuery = empty_table\<rparr>" "''CHG001''"] b
    by blast
qed

section \<open>Health check verdict\<close>

lemma checkDLQHealth_status:
  "fst (checkDLQHealth dlq_url sqs) = (if exceeds10 (snd (checkDLQHealth dlq_url sqs)) then Degraded else Healthy)"
  by (auto simp add: checkDLQHealth_def exceeds10_def Let_def split: sum.splits)

text \<open>
  Claim C3. The overall verdict is unhealthy whenever the table check is unhealthy,
  whatever the dead-letter queue; otherwise it is degraded exactly when the depth reported
  for the queue exceeds 10, and healthy otherwise. With no queue configured, or when
  reading the depth fails, the queue check reports healthy with depth 0, and the verdict
  is then the table's alone. The handler answers 200 with this verdict.
\<close>

theorem health_verdict:
  "hr_status (health_response dlq_url describe sqs) =
     (if checkDynamoDBHealth describe = Unhealthy then Unhealthy
      else if exceeds10 (snd (checkDLQHealth dlq_url sqs)) then Degraded
      else Healthy) \<and>
   (dlq_url = None \<or> dlq_url = Some [] \<or> sqs = Inl e \<longrightarrow>
      checkDLQHealth dlq_url sqs = (Healthy, Some 0) \<and>
      hr_status (health_response dlq_url describe sqs) =
        (if checkDynamoDBHealth describe = Unhealthy then Unhealthy else Healthy)) \<and>
   health_handler dlq_url describe sqs =
     Returned \<lparr>statusCode = 200, body = HealthBody (health_response dlq_url describe sqs)\<rparr>"
proof (intro conjI impI)
  show v: "hr_status (health_response dlq_url describe sqs) =
     (if checkDynamoDBHealth describe = Unhealthy then Unhealthy
      else if exceeds10 (snd (checkDLQHealth dlq_url sqs)) then Degraded
      else Healthy)"
    using checkDLQHealth_status[of dlq_url sqs]
    by (simp add: health_response_def Let_def)
  assume a: "dlq_url = None \<or> dlq_url = Some [] \<or> sqs = Inl e"
  show d: "checkDLQHealth dlq_url sqs = (Healthy, Some 0)"
    using a by (auto simp add: checkDLQHealth_def)
  show "hr_status (health_response dlq_url describe sqs) =
        (if checkDynamoDBHealth describe = Unhealthy then Unhealthy else Healthy)"
    unfolding v d by (simp add: exceeds10_def)
next
  show "health_handler dlq_url describe sqs =
     Returned \<lparr>statusCode = 200, body = HealthBody (health_response dlq_url describe sqs)\<rparr>"
    by (simp add: health_handler_def)
qed

theorem health_verdict_witness:
  "hr_status (health_response (Some ''https://sqs/dlq'') (Inr (Some ''CREATING'')) (Inr (Some ''0'')))
     = Unhealthy \<and>
   hr_status (health_response (Some ''https://sqs/dlq'') (Inr (Some ''ACTIVE'')) (Inr (Some ''11'')))
     = Degraded \<and>
   hr_status (health_response (Some ''https://sqs/dlq'') (Inr (Some ''ACTIVE'')) (Inr (Some ''10'')))
     = Healthy \<and>
   hr_status (health_response None (Inr (Some ''ACTIVE'')) (Inr (Some ''11''))) = Healthy \<and>
   hr_status (health_response (Some ''https://sqs/dlq'') (Inr (Some ''ACTIVE''))
     (Inl (ServiceError ''AccessDenied''))) = Healthy"
proof -
  have a: "checkDynamoDBHealth (Inr (Some ''CREATING'')) = Unhealthy"
    "checkDynamoDBHealth (Inr (Some ''ACTIVE'')) = Healthy"
    by (simp_all add: checkDynamoDBHealth_def)
  have b: "exceeds10 (snd (checkDLQHealth (Some ''https://sqs/dlq'') (Inr (Some ''11''))))"
    "\<not> exceeds10 (snd (checkDLQHealth (Some ''https://sqs/dlq'') (Inr (Some ''10''))))"
    by code_simp+
  have 1: "hr_status (health_response (Some ''https://sqs/dlq'') (Inr (Some ''CREATING''))
      (Inr (Some ''0''))) = Unhealthy"
    using health_verdict[of "Some ''https://sqs/dlq''" "Inr (Some ''CREATING'')"
        "Inr (Some ''0'')", THEN conjunct1]
    by (simp add: a)
  have 2: "hr_status (health_response (Some ''https://sqs/dlq'') (Inr (Some ''ACTIVE''))
      (Inr (Some ''11''))) = Degraded"
    using health_verdict[of "Some ''https://sqs/dlq''" "Inr (Some ''ACTIVE'')"
        "Inr (Some ''11'')", THEN conjunct1] b(1)
    by (simp add: a)
  have 3: "hr_status (health_response (Some ''https://sqs/dlq'') (Inr (Some ''ACTIVE''))
      (Inr (Some ''10''))) = Healthy"
    using health_verdict[of "Some ''https://sqs/dlq''" "Inr (Some ''ACTIVE'')"
        "Inr (Some ''10'')", THEN conjunct1] b(2)
    by (simp add: a)
  have 4: "hr_status (health_response None (Inr (Some ''ACTIVE'')) (Inr (Some ''11'')))
      = Healthy"
    using health_verdict[of None "Inr (Some ''ACTIVE'')" "Inr (Some ''11'')",
        THEN conjunct2, THEN conjunct1]
    by (simp add: a)
  have 5: "hr_status (health_response (Some ''https://sqs/dlq'') (Inr (Some ''ACTIVE''))
      (Inl (ServiceError ''AccessDenied''))) = Healthy"
    using health_verdict[of "Some ''https://sqs/dlq''" "Inr (Some ''ACTIVE'')"
        "Inl (ServiceError ''AccessDenied'')" "ServiceError ''AccessDenied''",
        THEN conjunct2, THEN conjunct1]
    by (simp add: a)
  show ?thesis
    using 1 2 3 4 5 by (intro conjI)
qed

lemma invokes_publishValidationMetrics: "\<not> invokes (publishValidationMetrics cw v r)"
  by (simp add: invokes_def publishValidationMetrics_def Let_def split: option.splits)

lemma emits_rejected: "emits ''EventsRejected'' (publishValidationMetrics cw False r)"
  by (simp add: emits_def publishValidationMetrics_def Let_def)

lemma emits_processing: "emits ''ProcessingDuration'' (publishMetrics cw d st)"
  by (simp add: emits_def publishMetrics_def Let_def)

section \<open>Failures in the write path\<close>

lemma validator_handler_throws:
  "validateEvent impl now event = Inl e \<Longrightarrow>
   validator_handler impl now cloudwatch invoke event = ([Log ''Received event:''], Thrown e)"
  by (simp add: validator_handler_def)

text \<open>
  Claim C9, as stated, says that validation failures propagate to the invoking framework.
  The validator handler logs a rejected event, counts it and returns; nothing is thrown.
\<close>

theorem validation_failure_absorbed_counterexample:
  "validateEvent strict_engine 1705314600000
     \<lparr>ev_chargerId = JStr ''bad id!'', ev_timestamp = JStr ''2024-01-15T10:30:00.000Z'',
      ev_data = JUndefined\<rparr> = Inr (Invalid InvalidChargerIdFormat) \<and>
   snd (validator_handler strict_engine 1705314600000 always_ok always_ok
     \<lparr>ev_chargerId = JStr ''bad id!'', ev_timestamp = JStr ''2024-01-15T10:30:00.000Z'',
      ev_data = JUndefined\<rparr>) = Returned ()"
proof -
  have v: "validateEvent strict_engine 1705314600000
     \<lparr>ev_chargerId = JStr ''bad id!'', ev_timestamp = JStr ''2024-01-15T10:30:00.000Z'',
      ev_data = JUndefined\<rparr> = Inr (Invalid InvalidChargerIdFormat)"
    by code_simp
  show ?thesis
    by (simp add: v validator_handler_def)
qed

text \<open>
  Claim C9, amended. A rejection is absorbed: when the validator returns a rejection
  reason, the handler publishes the rejection, does not invoke the processor and returns
  normally. Failures after validation propagate: when handing the validated event to the
  processor fails, the validator handler throws that error; when the store write fails,
  the processor handler publishes the failure measurement and throws the store's error to
  its caller.
\<close>

theorem write_path_failure_propagation:
  "(validateEvent impl now event = Inr (Invalid r) \<longrightarrow>
      snd (validator_handler impl now cloudwatch invoke event) = Returned () \<and>
      \<not> invokes (fst (validator_handler impl now cloudwatch invoke event)) \<and>
      emits ''EventsRejected'' (fst (validator_handler impl now cloudwatch invoke event))) \<and>
   (validateEvent impl now event = Inr (IsValid v) \<and> invoke v = Some e \<longrightarrow>
      snd (validator_handler impl now cloudwatch invoke event) = Thrown e) \<and>
   (toStoredEvent (p_storeNow env) (enrichEvent (p_uuid env) (p_enrichNow env) validatedEvent)
      = Inr storedEvent \<and> p_dynamoPut env storedEvent = Some e \<longrightarrow>
      snd (processor_handler env validatedEvent) = Thrown e \<and>
      emits ''ProcessingDuration'' (fst (processor_handler env validatedEvent)))"
proof (intro conjI impI)
  assume i: "validateEvent impl now event = Inr (Invalid r)"
  show "snd (validator_handler impl now cloudwatch invoke event) = Returned ()"
    by (simp add: validator_handler_def i)
  show "\<not> invokes (fst (validator_handler impl now cloudwatch invoke event))"
    using invokes_publishValidationMetrics[of cloudwatch False "Some r"]
    by (simp add: validator_handler_def i invokes_def)
  show "emits ''EventsRejected'' (fst (validator_handler impl now cloudwatch invoke event))"
    using emits_rejected[of cloudwatch "Some r"]
    by (simp add: validator_handler_def i emits_def)
next
  assume "validateEvent impl now event = Inr (IsValid v) \<and> invoke v = Some e"
  then show "snd (validator_handler impl now cloudwatch invoke event) = Thrown e"
    by (simp add: validator_handler_def Let_def)
next
  assume s: "toStoredEvent (p_storeNow env) (enrichEvent (p_uuid env) (p_enrichNow env) validatedEvent)
      = Inr storedEvent \<and> p_dynamoPut env storedEvent = Some e"
  then show "snd (processor_handler env validatedEvent) = Thrown e"
    by (simp add: processor_handler_def Let_def)
  show "emits ''ProcessingDuration'' (fst (processor_handler env validatedEvent))"
    using s emits_processing[of "p_cloudwatch env" "p_endTime env - p_startTime env" "''failure''"]
    by (simp add: processor_handler_def Let_def emits_def)
qed

theorem write_path_failure_propagation_witness:
  "snd (validator_handler strict_engine 1705314600000 always_ok failing_service
     \<lparr>ev_chargerId = JStr ''CHG001'', ev_timestamp = JStr ''2024-01-15T10:30:00.000Z'',
      ev_data = JUndefined\<rparr>) = Thrown (ServiceError ''ServiceUnavailable'') \<and>
   snd (validator_handler strict_engine 1705314600000 always_ok failing_service
     \<lparr>ev_chargerId = JStr ''CHG001'', ev_timestamp = JUndefined, ev_data = JUndefined\<rparr>)
     = Returned () \<and>
   \<not> invokes (fst (validator_handler strict_engine 1705314600000 always_ok failing_service
     \<lparr>ev_chargerId = JStr ''CHG001'', ev_timestamp = JUndefined, ev_data = JUndefined\<rparr>)) \<and>
   emits ''EventsRejected'' (fst (validator_handler strict_engine 1705314600000 always_ok
     failing_service
     \<lparr>ev_chargerId = JStr ''CHG001'', ev_timestamp = JUndefined, ev_data = JUndefined\<rparr>)) \<and>
   snd (validator_handler strict_engine 1705314600000 always_ok always_ok
     \<lparr>ev_chargerId = JStr ''CHG001'', ev_timestamp = JStr ''2099-01-01T00:00:00.000Z'',
      ev_data = JUndefined\<rparr>) = Returned () \<and>
   snd (processor_handler
     \<lparr>p_uuid = ''123e4567-e89b-12d3-a456-426614174000'', p_startTime = 1705314600100,
      p_enrichNow = 1705314600123, p_storeNow = 1705314600456, p_endTime = 1705314600500,
      p_cloudwatch = always_ok, p_dynamoPut = failing_service\<rparr>
     \<lparr>ve_chargerId = ''CHG001'', ve_timestamp = ValidDate 1705314600000, ve_data = JUndefined\<rparr>)
     = Thrown (ServiceError ''ServiceUnavailable'') \<and>
   emits ''ProcessingDuration'' (fst (processor_handler
     \<lparr>p_uuid = ''123e4567-e89b-12d3-a456-426614174000'', p_startTime = 1705314600100,
      p_enrichNow = 1705314600123, p_storeNow = 1705314600456, p_endTime = 1705314600500,
      p_cloudwatch = always_ok, p_dynamoPut = failing_service\<rparr>
     \<lparr>ve_chargerId = ''CHG001'', ve_timestamp = ValidDate 1705314600000, ve_data = JUndefined\<rparr>))"
proof -
  have a: "validateEvent strict_engine 1705314600000
     \<lparr>ev_chargerId = JStr ''CHG001'', ev_timestamp = JStr ''2024-01-15T10:30:00.000Z'',
      ev_data = JUndefined\<rparr> =
     Inr (IsValid \<lparr>ve_chargerId = ''CHG001'', ve_timestamp = ValidDate 1705314600000,
              ve_data = JUndefined\<rparr>) \<and>
     failing_service \<lparr>ve_chargerId = ''CHG001'', ve_timestamp = ValidDate 1705314600000,
              ve_data = JUndefined\<rparr> = Some (ServiceError ''ServiceUnavailable'')"
    by code_simp
  have b: "validateEvent strict_engine 1705314600000
     \<lparr>ev_chargerId = JStr ''CHG001'', ev_timestamp = JUndefined, ev_data = JUndefined\<rparr>
     = Inr (Invalid MissingTimestamp)"
    by (simp add: validateEvent_def)
  have f: "validateEvent strict_engine 1705314600000
     \<lparr>ev_chargerId = JStr ''CHG001'', ev_timestamp = JStr ''2099-01-01T00:00:00.000Z'',
      ev_data = JUndefined\<rparr> = Inr (Invalid FutureTimestamp)"
    by code_simp
  define env where "env =
     \<lparr>p_uuid = ''123e4567-e89b-12d3-a456-426614174000'', p_startTime = 1705314600100,
      p_enrichNow = 1705314600123, p_storeNow = 1705314600456, p_endTime = 1705314600500,
      p_cloudwatch = always_ok, p_dynamoPut = failing_service :: StoredEvent \<Rightarrow> error option\<rparr>"
  obtain se where c: "toStoredEvent (p_storeNow env)
      (enrichEvent (p_uuid env) (p_enrichNow env)
        \<lparr>ve_chargerId = ''CHG001'', ve_timestamp = ValidDate 1705314600000, ve_data = JUndefined\<rparr>)
      = Inr se"
    by (simp add: toStoredEvent_def enrichEvent_def toISOString_def)
  have d: "p_dynamoPut env se = Some (ServiceError ''ServiceUnavailable'')"
    by (simp add: env_def failing_service_def)
  have 1: "snd (validator_handler strict_engine 1705314600000 always_ok failing_service
     \<lparr>ev_chargerId = JStr ''CHG001'', ev_timestamp = JStr ''2024-01-15T10:30:00.000Z'',
      ev_data = JUndefined\<rparr>) = Thrown (ServiceError ''ServiceUnavailable'')"
    using write_path_failure_propagation[where invoke = "failing_service"
        and cloudwatch = always_ok, THEN conjunct2, THEN conjunct1, rule_format, OF a] .
  note 2 = write_path_failure_propagation[THEN conjunct1, rule_format, OF b,
      of always_ok failing_service]
  note 3 = write_path_failure_propagation[THEN conjunct1, rule_format, OF f,
      of always_ok always_ok]
  note 4 = write_path_failure_propagation[THEN conjunct2, THEN conjunct2, rule_format,
      OF conjI[OF c d]]
  show ?thesis
    using 1 2 3 4 unfolding env_def by simp
qed

end
